theory Spec2Isabelle
  imports Complex_Main
begin

section \<open>AutopilotMeteor: the autopilot, the near-miss tracker and the game loop\<close>

text \<open>
  A shallow embedding of \<^verbatim>\<open>spaceship_game.py\<close>. Every division of the
  source goes through \<open>py_div\<close>, which returns \<open>ZeroDivisionError\<close> as a
  value, so a method that divides is a function into \<open>error + 'a\<close>. The wall
  clock, the random source and the window's quit event are inputs of the
  functions that read them. Drawing has no effect on the modelled state and is
  left out. \<^verbatim>\<open>tracking.py\<close> holds a second copy of \<open>GameTracker\<close> that
  \<open>main\<close> does not import; the class modelled is the one of
  \<^verbatim>\<open>spaceship_game.py\<close>, which \<open>main\<close> runs.

  Numbers are \<^typ>\<open>real\<close>. The functions of the first part compute without
  rounding; the statements made of them are about which branch is taken, which
  events are recorded, the clamp of the position and the absence of a division
  by zero. The autopilot is then given again with the rounding of
  double-precision arithmetic (the functions named \<open>_fl\<close>), and the statements
  about the size of the velocity and of the avoidance impulse are made of that
  one.
\<close>

subsection \<open>Constants\<close>

definition WIDTH :: real where "WIDTH = 800"
definition HEIGHT :: real where "HEIGHT = 600"
definition SPACESHIP_SIZE :: real where "SPACESHIP_SIZE = 10"
definition METEOR_SIZE :: real where "METEOR_SIZE = 25"
definition MAX_SPEED :: real where "MAX_SPEED = 5"
definition DETECTION_RADIUS :: real where "DETECTION_RADIUS = 110"
definition AVOIDANCE_STRENGTH :: real where "AVOIDANCE_STRENGTH = 0.5"
definition CENTERING_STRENGTH :: real where "CENTERING_STRENGTH = 0.1"

lemmas constants_defs =
  WIDTH_def HEIGHT_def SPACESHIP_SIZE_def METEOR_SIZE_def MAX_SPEED_def
  DETECTION_RADIUS_def AVOIDANCE_STRENGTH_def CENTERING_STRENGTH_def

subsection \<open>The functions of the math module that the program uses\<close>

datatype error = ZeroDivisionError

definition py_div :: "real \<Rightarrow> real \<Rightarrow> error + real" where
  "py_div a b = (if b = 0 then Inl ZeroDivisionError else Inr (a / b))"

definition bind_result :: "error + 'a \<Rightarrow> ('a \<Rightarrow> error + 'b) \<Rightarrow> error + 'b" where
  "bind_result r f = (case r of Inl e \<Rightarrow> Inl e | Inr v \<Rightarrow> f v)"

definition hypot :: "real \<Rightarrow> real \<Rightarrow> real" where
  "hypot a b = sqrt (a * a + b * b)"

definition atan2 :: "real \<Rightarrow> real \<Rightarrow> real" where
  "atan2 b a =
     (if 0 < a then arctan (b / a)
      else if a < 0 then (if 0 \<le> b then arctan (b / a) + pi else arctan (b / a) - pi)
      else if 0 < b then pi / 2
      else if b < 0 then - (pi / 2)
      else 0)"

definition degrees :: "real \<Rightarrow> real" where
  "degrees r = r * 180 / pi"

subsection \<open>Data\<close>

record Spaceship =
  ship_x :: real
  ship_y :: real
  ship_velocity_x :: real
  ship_velocity_y :: real
  ship_angle :: real

record Meteor =
  meteor_x :: real
  meteor_y :: real
  meteor_speed :: real
  meteor_velocity_x :: real
  meteor_velocity_y :: real

record NearMissEvent =
  timestamp :: real
  distance :: real
  ship_position :: "real \<times> real"
  meteor_position :: "real \<times> real"
  ship_velocity :: "real \<times> real"
  meteor_velocity :: "real \<times> real"

record GameTracker =
  start_time :: real
  near_misses :: "NearMissEvent list"
  danger_threshold :: real
  critical_threshold :: real

text \<open>The values that \<open>save_analytics\<close> builds and hands to \<open>json.dump\<close>.\<close>

datatype pyval =
    PFloat real
  | PInt int
  | PStr string
  | PTuple "pyval list"
  | PList "pyval list"
  | PDict "(string \<times> pyval) list"

fun dict_get :: "pyval \<Rightarrow> string \<Rightarrow> pyval option" where
  "dict_get (PDict kvs) k = map_of kvs k"
| "dict_get _ k = None"

subsection \<open>GameTracker\<close>

text \<open>\<open>GameTracker.__init__\<close>; \<open>now\<close> is the reading of \<open>time.time()\<close>.\<close>

definition GameTracker_init :: "real \<Rightarrow> GameTracker" where
  "GameTracker_init now =
     \<lparr>start_time = now, near_misses = [], danger_threshold = 50, critical_threshold = 35\<rparr>"

text \<open>The body of the loop of \<open>track_frame\<close>, for one meteor.\<close>

definition track_meteor :: "real \<Rightarrow> Spaceship \<Rightarrow> GameTracker \<Rightarrow> Meteor \<Rightarrow> GameTracker" where
  "track_meteor current_time spaceship self meteor =
     (let distance = hypot (ship_x spaceship - meteor_x meteor) (ship_y spaceship - meteor_y meteor)
      in if distance < danger_threshold self \<and> distance > SPACESHIP_SIZE + METEOR_SIZE
         then
           (let event = \<lparr>timestamp = current_time,
                         distance = distance,
                         ship_position = (ship_x spaceship, ship_y spaceship),
                         meteor_position = (meteor_x meteor, meteor_y meteor),
                         ship_velocity = (ship_velocity_x spaceship, ship_velocity_y spaceship),
                         meteor_velocity = (meteor_velocity_x meteor, meteor_velocity_y meteor)\<rparr>
            in self\<lparr>near_misses := near_misses self @ [event]\<rparr>)
         else self)"

fun track_loop :: "real \<Rightarrow> Spaceship \<Rightarrow> GameTracker \<Rightarrow> Meteor list \<Rightarrow> GameTracker" where
  "track_loop current_time spaceship self [] = self"
| "track_loop current_time spaceship self (meteor # rest) =
     track_loop current_time spaceship (track_meteor current_time spaceship self meteor) rest"

definition track_frame :: "GameTracker \<Rightarrow> real \<Rightarrow> Spaceship \<Rightarrow> Meteor list \<Rightarrow> GameTracker" where
  "track_frame self now spaceship meteors =
     (let current_time = now - start_time self
      in track_loop current_time spaceship self meteors)"

text \<open>One entry of the \<open>near_misses\<close> list of the analytics dictionary.\<close>

definition event_dict :: "GameTracker \<Rightarrow> NearMissEvent \<Rightarrow> pyval" where
  "event_dict self event =
     PDict [
       (''timestamp'', PFloat (timestamp event)),
       (''distance'', PFloat (distance event)),
       (''ship_position'', PTuple [PFloat (fst (ship_position event)), PFloat (snd (ship_position event))]),
       (''meteor_position'', PTuple [PFloat (fst (meteor_position event)), PFloat (snd (meteor_position event))]),
       (''ship_velocity'', PTuple [PFloat (fst (ship_velocity event)), PFloat (snd (ship_velocity event))]),
       (''meteor_velocity'', PTuple [PFloat (fst (meteor_velocity event)), PFloat (snd (meteor_velocity event))]),
       (''severity'', PStr (if distance event < critical_threshold self then ''CRITICAL'' else ''WARNING''))]"

definition analytics_dict :: "GameTracker \<Rightarrow> real \<Rightarrow> pyval" where
  "analytics_dict self now =
     PDict [
       (''total_runtime'', PFloat (now - start_time self)),
       (''total_near_misses'', PInt (int (length (near_misses self)))),
       (''near_misses'', PList (map (event_dict self) (near_misses self)))]"

text \<open>
  \<open>save_analytics\<close> reads the clock, builds the dictionary and writes it to
  the file; the files are a map from names to the value dumped. The tracker is
  returned as the method leaves it.
\<close>

definition save_analytics ::
  "GameTracker \<Rightarrow> real \<Rightarrow> string \<Rightarrow> (string \<rightharpoonup> pyval) \<Rightarrow> GameTracker \<times> (string \<rightharpoonup> pyval)" where
  "save_analytics self now filename files =
     (let analytics = analytics_dict self now
      in (self, files(filename \<mapsto> analytics)))"

subsection \<open>Spaceship\<close>

definition Spaceship_init :: Spaceship where
  "Spaceship_init =
     \<lparr>ship_x = real_of_int (\<lfloor>WIDTH\<rfloor> div 2), ship_y = real_of_int (\<lfloor>HEIGHT\<rfloor> div 2),
      ship_velocity_x = 0, ship_velocity_y = 0, ship_angle = 0\<rparr>"

text \<open>
  The first loop of \<open>avoid_meteors\<close>: the accumulator is the pair of
  \<open>avoidance_vector\<close> and \<open>in_danger\<close>.
\<close>

fun threat_scan ::
  "Spaceship \<Rightarrow> (real \<times> real) \<times> bool \<Rightarrow> Meteor list \<Rightarrow> error + ((real \<times> real) \<times> bool)" where
  "threat_scan self acc [] = Inr acc"
| "threat_scan self ((a0, a1), in_danger) (meteor # rest) =
     (let distance = hypot (ship_x self - meteor_x meteor) (ship_y self - meteor_y meteor)
      in if distance < DETECTION_RADIUS \<and> distance > 0
         then
           bind_result (py_div (ship_x self - meteor_x meteor) distance) (\<lambda>u0.
           bind_result (py_div (ship_y self - meteor_y meteor) distance) (\<lambda>u1.
             threat_scan self ((a0 + u0, a1 + u1), True) rest))
         else threat_scan self ((a0, a1), in_danger) rest)"

text \<open>"Normalize and apply avoidance".\<close>

definition apply_avoidance :: "Spaceship \<Rightarrow> real \<times> real \<Rightarrow> error + Spaceship" where
  "apply_avoidance self avoidance_vector =
     (let length = hypot (fst avoidance_vector) (snd avoidance_vector)
      in if length > 0
         then
           bind_result (py_div (fst avoidance_vector) length) (\<lambda>n0.
           bind_result (py_div (snd avoidance_vector) length) (\<lambda>n1.
             Inr (self\<lparr>ship_velocity_x := ship_velocity_x self + n0 * AVOIDANCE_STRENGTH,
                       ship_velocity_y := ship_velocity_y self + n1 * AVOIDANCE_STRENGTH\<rparr>)))
         else Inr self)"

text \<open>"If not in danger, move towards the center of the screen".\<close>

definition apply_centering :: "Spaceship \<Rightarrow> bool \<Rightarrow> error + Spaceship" where
  "apply_centering self in_danger =
     (if \<not> in_danger
      then
        (let center_x = WIDTH / 2;
             center_y = HEIGHT / 2;
             dx = center_x - ship_x self;
             dy = center_y - ship_y self;
             norm = hypot dx dy
         in bind_result
              (if norm \<noteq> 0
               then bind_result (py_div dx norm) (\<lambda>dx'.
                    bind_result (py_div dy norm) (\<lambda>dy'. Inr (dx', dy')))
               else Inr (dx, dy))
              (\<lambda>(dx, dy).
                 Inr (self\<lparr>ship_velocity_x := ship_velocity_x self + dx * CENTERING_STRENGTH,
                           ship_velocity_y := ship_velocity_y self + dy * CENTERING_STRENGTH\<rparr>)))
      else Inr self)"

text \<open>The velocity before the speed limit: the scan, the avoidance and the centering.\<close>

definition steer :: "Spaceship \<Rightarrow> Meteor list \<Rightarrow> error + Spaceship" where
  "steer self meteors =
     bind_result (threat_scan self ((0, 0), False) meteors) (\<lambda>(avoidance_vector, in_danger).
     bind_result (apply_avoidance self avoidance_vector) (\<lambda>self.
       apply_centering self in_danger))"

text \<open>"Limit speed".\<close>

definition limit_speed :: "Spaceship \<Rightarrow> error + Spaceship" where
  "limit_speed self =
     (let speed = hypot (ship_velocity_x self) (ship_velocity_y self)
      in if speed > MAX_SPEED
         then
           bind_result (py_div (ship_velocity_x self) speed) (\<lambda>q0.
           bind_result (py_div (ship_velocity_y self) speed) (\<lambda>q1.
             Inr (self\<lparr>ship_velocity_x := q0 * MAX_SPEED, ship_velocity_y := q1 * MAX_SPEED\<rparr>)))
         else Inr self)"

text \<open>"Calculate angle".\<close>

definition calculate_angle :: "Spaceship \<Rightarrow> Spaceship" where
  "calculate_angle self =
     (if ship_velocity_x self \<noteq> 0 \<or> ship_velocity_y self \<noteq> 0
      then self\<lparr>ship_angle := degrees (atan2 (- ship_velocity_y self) (ship_velocity_x self))\<rparr>
      else self)"

text \<open>The position update and "Keep within screen bounds".\<close>

definition move_within_bounds :: "Spaceship \<Rightarrow> Spaceship" where
  "move_within_bounds self =
     (let self = self\<lparr>ship_x := ship_x self + ship_velocity_x self\<rparr>;
          self = self\<lparr>ship_y := ship_y self + ship_velocity_y self\<rparr>;
          self = self\<lparr>ship_x := max SPACESHIP_SIZE (min (WIDTH - SPACESHIP_SIZE) (ship_x self))\<rparr>;
          self = self\<lparr>ship_y := max SPACESHIP_SIZE (min (HEIGHT - SPACESHIP_SIZE) (ship_y self))\<rparr>
      in self)"

definition avoid_meteors :: "Spaceship \<Rightarrow> Meteor list \<Rightarrow> error + Spaceship" where
  "avoid_meteors self meteors =
     bind_result (steer self meteors) (\<lambda>self.
     bind_result (limit_speed self) (\<lambda>self.
       Inr (move_within_bounds (calculate_angle self))))"

subsection \<open>The autopilot in double-precision arithmetic\<close>

text \<open>
  A Python float is an IEEE 754 binary64 number, and \<open>+\<close>, \<open>-\<close>, \<open>*\<close> and
  \<open>/\<close> return the exact result rounded to the nearest such number, ties to the
  even significand. \<open>round_double\<close> is that rounding on the finite range: 53
  significant bits, the exponent not below -1022, so that the spacing never goes
  below 2 to the -1074. A result whose magnitude reaches 2 to the 1024 is \<open>inf\<close>
  in the program and is outside this model; signed zeros and NaN are outside it too.
\<close>

definition round_half_even :: "real \<Rightarrow> int" where
  "round_half_even y =
     (let f = \<lfloor>y\<rfloor>; r = y - of_int f
      in if r < 1 / 2 then f else if 1 / 2 < r then f + 1 else if even f then f else f + 1)"

definition round_double :: "real \<Rightarrow> real" where
  "round_double x =
     (if x = 0 then 0
      else
        (let e = max \<lfloor>log 2 \<bar>x\<bar>\<rfloor> (- 1022);
             ulp = 2 powr (of_int e - 52)
         in of_int (round_half_even (x / ulp)) * ulp))"

text \<open>
  \<open>math.hypot\<close> and \<open>math.atan2\<close> are library functions whose last bit
  the language does not fix, so the autopilot below takes them as fields of a
  record next to the rounding: \<open>fl_hypot\<close> is \<open>math.hypot\<close> and
  \<open>fl_heading b a\<close> is \<open>math.degrees (math.atan2 b a)\<close>. With
  \<open>exact_ops\<close> nothing is rounded; \<open>correctly_rounded_ops\<close> rounds every
  operation and has both library functions correctly rounded. It is used for
  the concrete inputs below, where the values of \<open>math.hypot\<close> are 0, 13, 50
  and the double nearest to the square root of 2 times 2 to the -53; no
  statement below reads the heading.
\<close>

record float_ops =
  fl_round :: "real \<Rightarrow> real"
  fl_hypot :: "real \<Rightarrow> real \<Rightarrow> real"
  fl_heading :: "real \<Rightarrow> real \<Rightarrow> real"

definition exact_ops :: float_ops where
  "exact_ops = \<lparr>fl_round = (\<lambda>x. x), fl_hypot = hypot, fl_heading = (\<lambda>b a. degrees (atan2 b a))\<rparr>"

definition correctly_rounded_ops :: float_ops where
  "correctly_rounded_ops =
     \<lparr>fl_round = round_double,
      fl_hypot = (\<lambda>a b. round_double (hypot a b)),
      fl_heading = (\<lambda>b a. round_double (degrees (atan2 b a)))\<rparr>"

text \<open>A division of the source: the zero divisor is the error, the quotient is rounded.\<close>

definition fl_div :: "float_ops \<Rightarrow> real \<Rightarrow> real \<Rightarrow> error + real" where
  "fl_div ops a b = bind_result (py_div a b) (\<lambda>q. Inr (fl_round ops q))"

text \<open>
  The functions of \<open>avoid_meteors\<close> once more, statement by statement as above,
  with every arithmetic result rounded by \<open>fl_round\<close>. The literals
  \<open>AVOIDANCE_STRENGTH\<close> and \<open>CENTERING_STRENGTH\<close> are the doubles nearest to
  0.5 and 0.1; comparisons, negation, \<open>max\<close> and \<open>min\<close> are exact.
\<close>

fun threat_scan_fl ::
  "float_ops \<Rightarrow> Spaceship \<Rightarrow> (real \<times> real) \<times> bool \<Rightarrow> Meteor list \<Rightarrow> error + ((real \<times> real) \<times> bool)" where
  "threat_scan_fl ops self acc [] = Inr acc"
| "threat_scan_fl ops self ((a0, a1), in_danger) (meteor # rest) =
     (let dx = fl_round ops (ship_x self - meteor_x meteor);
          dy = fl_round ops (ship_y self - meteor_y meteor);
          distance = fl_hypot ops dx dy
      in if distance < DETECTION_RADIUS \<and> distance > 0
         then
           bind_result (fl_div ops dx distance) (\<lambda>u0.
           bind_result (fl_div ops dy distance) (\<lambda>u1.
             threat_scan_fl ops self
               ((fl_round ops (a0 + u0), fl_round ops (a1 + u1)), True) rest))
         else threat_scan_fl ops self ((a0, a1), in_danger) rest)"

definition apply_avoidance_fl :: "float_ops \<Rightarrow> Spaceship \<Rightarrow> real \<times> real \<Rightarrow> error + Spaceship" where
  "apply_avoidance_fl ops self avoidance_vector =
     (let length = fl_hypot ops (fst avoidance_vector) (snd avoidance_vector)
      in if length > 0
         then
           bind_result (fl_div ops (fst avoidance_vector) length) (\<lambda>n0.
           bind_result (fl_div ops (snd avoidance_vector) length) (\<lambda>n1.
             Inr (self\<lparr>ship_velocity_x :=
                         fl_round ops (ship_velocity_x self +
                           fl_round ops (n0 * fl_round ops AVOIDANCE_STRENGTH)),
                       ship_velocity_y :=
                         fl_round ops (ship_velocity_y self +
                           fl_round ops (n1 * fl_round ops AVOIDANCE_STRENGTH))\<rparr>)))
         else Inr self)"

definition apply_centering_fl :: "float_ops \<Rightarrow> Spaceship \<Rightarrow> bool \<Rightarrow> error + Spaceship" where
  "apply_centering_fl ops self in_danger =
     (if \<not> in_danger
      then
        (let center_x = fl_round ops (WIDTH / 2);
             center_y = fl_round ops (HEIGHT / 2);
             dx = fl_round ops (center_x - ship_x self);
             dy = fl_round ops (center_y - ship_y self);
             norm = fl_hypot ops dx dy
         in bind_result
              (if norm \<noteq> 0
               then bind_result (fl_div ops dx norm) (\<lambda>dx'.
                    bind_result (fl_div ops dy norm) (\<lambda>dy'. Inr (dx', dy')))
               else Inr (dx, dy))
              (\<lambda>(dx, dy).
                 Inr (self\<lparr>ship_velocity_x :=
                             fl_round ops (ship_velocity_x self +
                               fl_round ops (dx * fl_round ops CENTERING_STRENGTH)),
                           ship_velocity_y :=
                             fl_round ops (ship_velocity_y self +
                               fl_round ops (dy * fl_round ops CENTERING_STRENGTH))\<rparr>)))
      else Inr self)"

definition steer_fl :: "float_ops \<Rightarrow> Spaceship \<Rightarrow> Meteor list \<Rightarrow> error + Spaceship" where
  "steer_fl ops self meteors =
     bind_result (threat_scan_fl ops self ((0, 0), False) meteors) (\<lambda>(avoidance_vector, in_danger).
     bind_result (apply_avoidance_fl ops self avoidance_vector) (\<lambda>self.
       apply_centering_fl ops self in_danger))"

definition limit_speed_fl :: "float_ops \<Rightarrow> Spaceship \<Rightarrow> error + Spaceship" where
  "limit_speed_fl ops self =
     (let speed = fl_hypot ops (ship_velocity_x self) (ship_velocity_y self)
      in if speed > MAX_SPEED
         then
           bind_result (fl_div ops (ship_velocity_x self) speed) (\<lambda>q0.
           bind_result (fl_div ops (ship_velocity_y self) speed) (\<lambda>q1.
             Inr (self\<lparr>ship_velocity_x := fl_round ops (q0 * MAX_SPEED),
                       ship_velocity_y := fl_round ops (q1 * MAX_SPEED)\<rparr>)))
         else Inr self)"

definition calculate_angle_fl :: "float_ops \<Rightarrow> Spaceship \<Rightarrow> Spaceship" where
  "calculate_angle_fl ops self =
     (if ship_velocity_x self \<noteq> 0 \<or> ship_velocity_y self \<noteq> 0
      then self\<lparr>ship_angle := fl_heading ops (- ship_velocity_y self) (ship_velocity_x self)\<rparr>
      else self)"

definition move_within_bounds_fl :: "float_ops \<Rightarrow> Spaceship \<Rightarrow> Spaceship" where
  "move_within_bounds_fl ops self =
     (let self = self\<lparr>ship_x := fl_round ops (ship_x self + ship_velocity_x self)\<rparr>;
          self = self\<lparr>ship_y := fl_round ops (ship_y self + ship_velocity_y self)\<rparr>;
          self = self\<lparr>ship_x := max SPACESHIP_SIZE (min (WIDTH - SPACESHIP_SIZE) (ship_x self))\<rparr>;
          self = self\<lparr>ship_y := max SPACESHIP_SIZE (min (HEIGHT - SPACESHIP_SIZE) (ship_y self))\<rparr>
      in self)"

definition avoid_meteors_fl :: "float_ops \<Rightarrow> Spaceship \<Rightarrow> Meteor list \<Rightarrow> error + Spaceship" where
  "avoid_meteors_fl ops self meteors =
     bind_result (steer_fl ops self meteors) (\<lambda>self.
     bind_result (limit_speed_fl ops self) (\<lambda>self.
       Inr (move_within_bounds_fl ops (calculate_angle_fl ops self))))"

subsection \<open>Meteor\<close>

datatype side = Left | Right | Top | Bottom

text \<open>
  \<open>Meteor.__init__\<close>. The draws are arguments: \<open>s\<close> is the side chosen,
  \<open>along\<close> the result of the one \<open>randint\<close> of the branch taken,
  \<open>angle\<close> the result of \<open>uniform\<close>, \<open>speed\<close> the result of
  \<open>randint(1, 3)\<close>.
\<close>

definition Meteor_init :: "side \<Rightarrow> int \<Rightarrow> real \<Rightarrow> int \<Rightarrow> Meteor" where
  "Meteor_init s along angle speed =
     \<lparr>meteor_x = (case s of Left \<Rightarrow> 0 | Right \<Rightarrow> WIDTH | Top \<Rightarrow> real_of_int along | Bottom \<Rightarrow> real_of_int along),
      meteor_y = (case s of Left \<Rightarrow> real_of_int along | Right \<Rightarrow> real_of_int along | Top \<Rightarrow> 0 | Bottom \<Rightarrow> HEIGHT),
      meteor_speed = real_of_int speed,
      meteor_velocity_x = cos angle * real_of_int speed,
      meteor_velocity_y = sin angle * real_of_int speed\<rparr>"

definition update :: "Meteor \<Rightarrow> Meteor" where
  "update self =
     self\<lparr>meteor_x := meteor_x self + meteor_velocity_x self,
          meteor_y := meteor_y self + meteor_velocity_y self\<rparr>"

subsection \<open>The game loop\<close>

text \<open>The test of "Remove off-screen meteors".\<close>

definition off_screen :: "Meteor \<Rightarrow> bool" where
  "off_screen meteor =
     (meteor_x meteor < - METEOR_SIZE \<or> meteor_x meteor > WIDTH + METEOR_SIZE \<or>
      meteor_y meteor < - METEOR_SIZE \<or> meteor_y meteor > HEIGHT + METEOR_SIZE)"

text \<open>
  "Update and draw meteors": the loop runs over a copy of the list, updates each
  meteor in place and removes it from the list when it is off the screen. The
  removal is of that very object, so the list that remains holds the updated
  meteors that were kept, in their order.
\<close>

fun update_meteors :: "Meteor list \<Rightarrow> Meteor list" where
  "update_meteors [] = []"
| "update_meteors (meteor # rest) =
     (let meteor = update meteor
      in if off_screen meteor then update_meteors rest else meteor # update_meteors rest)"

text \<open>"Collision detection": the loop that clears \<open>running\<close>.\<close>

fun collision_detection :: "Spaceship \<Rightarrow> bool \<Rightarrow> Meteor list \<Rightarrow> bool" where
  "collision_detection spaceship running [] = running"
| "collision_detection spaceship running (meteor # rest) =
     (let distance = hypot (ship_x spaceship - meteor_x meteor) (ship_y spaceship - meteor_y meteor)
      in if distance < SPACESHIP_SIZE + METEOR_SIZE
         then collision_detection spaceship False rest
         else collision_detection spaceship running rest)"

text \<open>What one pass of the loop reads from outside the program.\<close>

record frame_input =
  random_random :: real
  spawn_side :: side
  spawn_along :: int
  spawn_angle :: real
  spawn_speed :: int
  time_time :: real
  quit_event :: bool

text \<open>The local variables of \<open>main\<close> that the loop changes.\<close>

record game =
  spaceship :: Spaceship
  meteors :: "Meteor list"
  running :: bool
  score :: int
  tracker :: GameTracker

definition main_init :: "real \<Rightarrow> game" where
  "main_init now =
     \<lparr>spaceship = Spaceship_init, meteors = [], running = True, score = 0,
      tracker = GameTracker_init now\<rparr>"

text \<open>The live meteors of a pass, after the spawn and the update loop.\<close>

definition frame_meteors :: "frame_input \<Rightarrow> game \<Rightarrow> Meteor list" where
  "frame_meteors inp g =
     update_meteors
       (if random_random inp < 0.05
        then meteors g @ [Meteor_init (spawn_side inp) (spawn_along inp) (spawn_angle inp) (spawn_speed inp)]
        else meteors g)"

text \<open>The body of \<open>while running\<close>.\<close>

definition frame :: "frame_input \<Rightarrow> game \<Rightarrow> error + game" where
  "frame inp g =
     (let live = frame_meteors inp g
      in bind_result (avoid_meteors (spaceship g) live) (\<lambda>ship.
           (let tr = track_frame (tracker g) (time_time inp) ship live;
                run = collision_detection ship (running g) live;
                run = (if quit_event inp then False else run)
            in Inr \<lparr>spaceship = ship, meteors = live, running = run,
                    score = score g + 1, tracker = tr\<rparr>)))"

text \<open>
  \<open>while running\<close> over the inputs of the passes: it stops when \<open>running\<close> is
  cleared, and when the inputs are used up it returns the state reached.
\<close>

fun main_loop :: "frame_input list \<Rightarrow> game \<Rightarrow> error + game" where
  "main_loop [] g = Inr g"
| "main_loop (inp # rest) g =
     (if running g then bind_result (frame inp g) (main_loop rest) else Inr g)"

text \<open>
  \<open>main\<close>: \<open>start\<close> is the clock when the tracker is made, \<open>finish\<close> the
  clock when the analytics are saved.
\<close>

definition main :: "real \<Rightarrow> frame_input list \<Rightarrow> real \<Rightarrow> (string \<rightharpoonup> pyval) \<Rightarrow> error + (game \<times> (string \<rightharpoonup> pyval))" where
  "main start inps finish files =
     bind_result (main_loop inps (main_init start)) (\<lambda>g.
       (let (tr, files) = save_analytics (tracker g) finish ''game_analytics.json'' files
        in Inr (g\<lparr>tracker := tr\<rparr>, files)))"

subsection \<open>Facts about the arithmetic and the error values\<close>

lemma hypot_nonneg: "0 \<le> hypot a b"
  by (simp add: hypot_def)

lemma hypot_eq_0_iff: "hypot a b = 0 \<longleftrightarrow> a = 0 \<and> b = 0"
  by (simp add: hypot_def add_nonneg_eq_0_iff)

lemma hypot_axis: "hypot a 0 = \<bar>a\<bar>"
  by (simp add: hypot_def)

lemma hypot_scale: "hypot (c * a) (c * b) = \<bar>c\<bar> * hypot a b"
proof -
  have "(c * a) * (c * a) + (c * b) * (c * b) = c\<^sup>2 * (a * a + b * b)"
    by (simp add: power2_eq_square algebra_simps)
  then show ?thesis
    by (simp add: hypot_def real_sqrt_mult)
qed

lemma py_div_nonzero: "b \<noteq> 0 \<Longrightarrow> py_div a b = Inr (a / b)"
  by (simp add: py_div_def)

lemma bind_result_Inr [simp]: "bind_result (Inr v) f = f v"
  by (simp add: bind_result_def)

lemma bind_result_Inl [simp]: "bind_result (Inl e) f = Inl e"
  by (simp add: bind_result_def)

subsection \<open>The near-miss scan\<close>

lemma track_meteor_fields:
  "start_time (track_meteor ct s t m) = start_time t"
  "danger_threshold (track_meteor ct s t m) = danger_threshold t"
  "critical_threshold (track_meteor ct s t m) = critical_threshold t"
  by (simp_all add: track_meteor_def Let_def)

lemma track_meteor_near_misses:
  "near_misses (track_meteor ct s t m) =
     near_misses t @
     (if SPACESHIP_SIZE + METEOR_SIZE < hypot (ship_x s - meteor_x m) (ship_y s - meteor_y m) \<and>
         hypot (ship_x s - meteor_x m) (ship_y s - meteor_y m) < danger_threshold t
      then [\<lparr>timestamp = ct,
             distance = hypot (ship_x s - meteor_x m) (ship_y s - meteor_y m),
             ship_position = (ship_x s, ship_y s),
             meteor_position = (meteor_x m, meteor_y m),
             ship_velocity = (ship_velocity_x s, ship_velocity_y s),
             meteor_velocity = (meteor_velocity_x m, meteor_velocity_y m)\<rparr>]
      else [])"
  by (auto simp add: track_meteor_def Let_def)

lemma track_loop_fields:
  "start_time (track_loop ct s t ms) = start_time t \<and>
   danger_threshold (track_loop ct s t ms) = danger_threshold t \<and>
   critical_threshold (track_loop ct s t ms) = critical_threshold t"
  by (induction ms arbitrary: t) (simp_all add: track_meteor_fields)

lemma track_loop_near_misses:
  "near_misses (track_loop ct s t ms) =
     near_misses t @
     map (\<lambda>m. \<lparr>timestamp = ct,
               distance = hypot (ship_x s - meteor_x m) (ship_y s - meteor_y m),
               ship_position = (ship_x s, ship_y s),
               meteor_position = (meteor_x m, meteor_y m),
               ship_velocity = (ship_velocity_x s, ship_velocity_y s),
               meteor_velocity = (meteor_velocity_x m, meteor_velocity_y m)\<rparr>)
       (filter (\<lambda>m. SPACESHIP_SIZE + METEOR_SIZE < hypot (ship_x s - meteor_x m) (ship_y s - meteor_y m) \<and>
                     hypot (ship_x s - meteor_x m) (ship_y s - meteor_y m) < danger_threshold t) ms)"
proof (induction ms arbitrary: t)
  case Nil
  show ?case by simp
next
  case (Cons m ms)
  show ?case
    by (simp add: Cons.IH track_meteor_fields track_meteor_near_misses)
qed

lemma track_frame_fields:
  "start_time (track_frame t now s ms) = start_time t"
  "danger_threshold (track_frame t now s ms) = danger_threshold t"
  "critical_threshold (track_frame t now s ms) = critical_threshold t"
  by (simp_all add: track_frame_def Let_def track_loop_fields)

lemma track_frame_near_misses:
  "near_misses (track_frame t now s ms) =
     near_misses t @
     map (\<lambda>m. \<lparr>timestamp = now - start_time t,
               distance = hypot (ship_x s - meteor_x m) (ship_y s - meteor_y m),
               ship_position = (ship_x s, ship_y s),
               meteor_position = (meteor_x m, meteor_y m),
               ship_velocity = (ship_velocity_x s, ship_velocity_y s),
               meteor_velocity = (meteor_velocity_x m, meteor_velocity_y m)\<rparr>)
       (filter (\<lambda>m. SPACESHIP_SIZE + METEOR_SIZE < hypot (ship_x s - meteor_x m) (ship_y s - meteor_y m) \<and>
                     hypot (ship_x s - meteor_x m) (ship_y s - meteor_y m) < danger_threshold t) ms)"
  by (simp add: track_frame_def Let_def track_loop_near_misses)

lemma event_dict_severity:
  "dict_get (event_dict t e) ''severity'' =
     Some (PStr (if distance e < critical_threshold t then ''CRITICAL'' else ''WARNING''))"
  by (simp add: event_dict_def)

text \<open>
  C1. In one call of \<open>track_frame\<close> the tracker appends, in the order of the
  meteor list, one NearMissEvent for each meteor whose distance to the ship is
  strictly above SPACESHIP_SIZE + METEOR_SIZE and strictly below the danger
  threshold, and for no other meteor; the event records that distance. The
  thresholds are left as they were. In the analytics dictionary the severity of
  an event is CRITICAL when its recorded distance is strictly below the critical
  threshold and WARNING otherwise, and the entries are those of the recorded
  events in their order.
\<close>

theorem track_frame_near_miss_classification:
  "near_misses (track_frame self now s ms) =
     near_misses self @
     map (\<lambda>m. \<lparr>timestamp = now - start_time self,
               distance = hypot (ship_x s - meteor_x m) (ship_y s - meteor_y m),
               ship_position = (ship_x s, ship_y s),
               meteor_position = (meteor_x m, meteor_y m),
               ship_velocity = (ship_velocity_x s, ship_velocity_y s),
               meteor_velocity = (meteor_velocity_x m, meteor_velocity_y m)\<rparr>)
       (filter (\<lambda>m. SPACESHIP_SIZE + METEOR_SIZE < hypot (ship_x s - meteor_x m) (ship_y s - meteor_y m) \<and>
                     hypot (ship_x s - meteor_x m) (ship_y s - meteor_y m) < danger_threshold self) ms)
   \<and> danger_threshold (track_frame self now s ms) = danger_threshold self
   \<and> critical_threshold (track_frame self now s ms) = critical_threshold self
   \<and> dict_get (event_dict self event) ''severity'' =
       Some (PStr (if distance event < critical_threshold self then ''CRITICAL'' else ''WARNING''))
   \<and> dict_get (analytics_dict self finish) ''near_misses'' =
       Some (PList (map (event_dict self) (near_misses self)))"
  by (simp add: track_frame_near_misses track_frame_fields event_dict_severity analytics_dict_def)

theorem track_frame_near_miss_classification_witness:
  "map distance (near_misses (track_frame (GameTracker_init 0) 2
      \<lparr>ship_x = 400, ship_y = 300, ship_velocity_x = 0, ship_velocity_y = 0, ship_angle = 0\<rparr>
      [\<lparr>meteor_x = 440, meteor_y = 300, meteor_speed = 1, meteor_velocity_x = 1, meteor_velocity_y = 0\<rparr>,
       \<lparr>meteor_x = 460, meteor_y = 300, meteor_speed = 1, meteor_velocity_x = 1, meteor_velocity_y = 0\<rparr>,
       \<lparr>meteor_x = 430, meteor_y = 300, meteor_speed = 1, meteor_velocity_x = 1, meteor_velocity_y = 0\<rparr>])) = [40]"
  using track_frame_near_miss_classification [of "GameTracker_init 0" 2
      "\<lparr>ship_x = 400, ship_y = 300, ship_velocity_x = 0, ship_velocity_y = 0, ship_angle = 0\<rparr>"
      "[\<lparr>meteor_x = 440, meteor_y = 300, meteor_speed = 1, meteor_velocity_x = 1, meteor_velocity_y = 0\<rparr>,
        \<lparr>meteor_x = 460, meteor_y = 300, meteor_speed = 1, meteor_velocity_x = 1, meteor_velocity_y = 0\<rparr>,
        \<lparr>meteor_x = 430, meteor_y = 300, meteor_speed = 1, meteor_velocity_x = 1, meteor_velocity_y = 0\<rparr>]"]
  by (simp add: GameTracker_init_def hypot_axis constants_defs)

subsection \<open>The autopilot: every division is defined\<close>

lemma threat_scan_step:
  "threat_scan self ((a0, a1), d) (m # rest) =
     (if hypot (ship_x self - meteor_x m) (ship_y self - meteor_y m) < DETECTION_RADIUS \<and>
         0 < hypot (ship_x self - meteor_x m) (ship_y self - meteor_y m)
      then threat_scan self
             ((a0 + (ship_x self - meteor_x m) / hypot (ship_x self - meteor_x m) (ship_y self - meteor_y m),
               a1 + (ship_y self - meteor_y m) / hypot (ship_x self - meteor_x m) (ship_y self - meteor_y m)),
              True) rest
      else threat_scan self ((a0, a1), d) rest)"
  by (simp add: Let_def py_div_nonzero)

lemma threat_scan_total: "\<exists>r. threat_scan self acc ms = Inr r"
proof (induction ms arbitrary: acc)
  case Nil
  show ?case by simp
next
  case (Cons m ms)
  obtain a0 a1 d where acc: "acc = ((a0, a1), d)"
    by (metis surj_pair)
  show ?case
    unfolding acc threat_scan_step using Cons.IH by simp
qed

lemma apply_avoidance_eq:
  "apply_avoidance self av =
     Inr (if 0 < hypot (fst av) (snd av)
          then self\<lparr>ship_velocity_x := ship_velocity_x self + fst av / hypot (fst av) (snd av) * AVOIDANCE_STRENGTH,
                    ship_velocity_y := ship_velocity_y self + snd av / hypot (fst av) (snd av) * AVOIDANCE_STRENGTH\<rparr>
          else self)"
  by (simp add: apply_avoidance_def Let_def py_div_nonzero)

lemma apply_centering_eq:
  "apply_centering self in_danger =
     Inr (if in_danger then self
          else self\<lparr>ship_velocity_x := ship_velocity_x self +
                      (if hypot (WIDTH / 2 - ship_x self) (HEIGHT / 2 - ship_y self) \<noteq> 0
                       then (WIDTH / 2 - ship_x self) / hypot (WIDTH / 2 - ship_x self) (HEIGHT / 2 - ship_y self)
                       else WIDTH / 2 - ship_x self) * CENTERING_STRENGTH,
                    ship_velocity_y := ship_velocity_y self +
                      (if hypot (WIDTH / 2 - ship_x self) (HEIGHT / 2 - ship_y self) \<noteq> 0
                       then (HEIGHT / 2 - ship_y self) / hypot (WIDTH / 2 - ship_x self) (HEIGHT / 2 - ship_y self)
                       else HEIGHT / 2 - ship_y self) * CENTERING_STRENGTH\<rparr>)"
  by (simp add: apply_centering_def Let_def py_div_nonzero)

lemma limit_speed_eq:
  "limit_speed self =
     Inr (if MAX_SPEED < hypot (ship_velocity_x self) (ship_velocity_y self)
          then self\<lparr>ship_velocity_x := ship_velocity_x self / hypot (ship_velocity_x self) (ship_velocity_y self) * MAX_SPEED,
                    ship_velocity_y := ship_velocity_y self / hypot (ship_velocity_x self) (ship_velocity_y self) * MAX_SPEED\<rparr>
          else self)"
proof -
  have "MAX_SPEED < hypot (ship_velocity_x self) (ship_velocity_y self) \<Longrightarrow>
        hypot (ship_velocity_x self) (ship_velocity_y self) \<noteq> 0"
    by (simp add: MAX_SPEED_def)
  then show ?thesis
    by (simp add: limit_speed_def Let_def py_div_nonzero)
qed

lemma steer_total: "\<exists>p. steer self ms = Inr p"
proof -
  obtain av d where "threat_scan self ((0, 0), False) ms = Inr (av, d)"
    using threat_scan_total [of self "((0, 0), False)" ms] by (metis surj_pair)
  then show ?thesis
    by (simp add: steer_def apply_avoidance_eq apply_centering_eq)
qed

lemma avoid_meteors_total: "\<exists>s'. avoid_meteors self ms = Inr s'"
proof -
  obtain p where "steer self ms = Inr p"
    using steer_total by blast
  then show ?thesis
    by (simp add: avoid_meteors_def limit_speed_eq)
qed

lemma calculate_angle_fields:
  "ship_x (calculate_angle s) = ship_x s"
  "ship_y (calculate_angle s) = ship_y s"
  "ship_velocity_x (calculate_angle s) = ship_velocity_x s"
  "ship_velocity_y (calculate_angle s) = ship_velocity_y s"
  by (simp_all add: calculate_angle_def)

lemma move_within_bounds_velocity:
  "ship_velocity_x (move_within_bounds s) = ship_velocity_x s"
  "ship_velocity_y (move_within_bounds s) = ship_velocity_y s"
  by (simp_all add: move_within_bounds_def Let_def)

lemma move_within_bounds_position:
  "ship_x (move_within_bounds s) = max SPACESHIP_SIZE (min (WIDTH - SPACESHIP_SIZE) (ship_x s + ship_velocity_x s))"
  "ship_y (move_within_bounds s) = max SPACESHIP_SIZE (min (HEIGHT - SPACESHIP_SIZE) (ship_y s + ship_velocity_y s))"
  by (simp_all add: move_within_bounds_def Let_def)

lemma avoid_meteors_cases:
  assumes "avoid_meteors self ms = Inr s'"
  obtains p q where "steer self ms = Inr p" "limit_speed p = Inr q"
    "s' = move_within_bounds (calculate_angle q)"
proof -
  obtain p where p: "steer self ms = Inr p"
    using steer_total by blast
  obtain q where q: "limit_speed p = Inr q"
    by (simp add: limit_speed_eq)
  from assms p q have "s' = move_within_bounds (calculate_angle q)"
    by (simp add: avoid_meteors_def)
  with p q that show thesis by blast
qed

text \<open>
  C9. \<open>avoid_meteors\<close> never divides by zero: for every ship and every list
  of meteors it returns a ship and not the error. The scan divides only by a
  distance it has found positive, the avoidance by a length it has found
  positive, the speed limit by a speed above MAX_SPEED. A summed avoidance vector
  of zero length is skipped and leaves the ship as it is; at the centre of the
  field the centering adds the zero vector.
\<close>

theorem avoid_meteors_no_division_fault:
  "(\<exists>s'. avoid_meteors self ms = Inr s')
   \<and> avoid_meteors self ms \<noteq> Inl ZeroDivisionError
   \<and> (\<exists>r. threat_scan self ((0, 0), False) ms = Inr r)
   \<and> apply_avoidance self (0, 0) = Inr self
   \<and> (ship_x self = WIDTH / 2 \<and> ship_y self = HEIGHT / 2 \<longrightarrow> apply_centering self False = Inr self)
   \<and> (\<exists>q. limit_speed self = Inr q)"
proof -
  obtain s' where "avoid_meteors self ms = Inr s'"
    using avoid_meteors_total by blast
  moreover have "apply_avoidance self (0, 0) = Inr self"
    by (simp add: apply_avoidance_eq hypot_axis)
  moreover have "ship_x self = WIDTH / 2 \<and> ship_y self = HEIGHT / 2 \<longrightarrow> apply_centering self False = Inr self"
    by (simp add: apply_centering_eq hypot_axis)
  ultimately show ?thesis
    using threat_scan_total [of self "((0, 0), False)" ms]
    by (simp add: limit_speed_eq)
qed

theorem avoid_meteors_no_division_fault_witness:
  "avoid_meteors
     \<lparr>ship_x = 400, ship_y = 300, ship_velocity_x = 0, ship_velocity_y = 0, ship_angle = 0\<rparr>
     [\<lparr>meteor_x = 440, meteor_y = 300, meteor_speed = 1, meteor_velocity_x = 1, meteor_velocity_y = 0\<rparr>,
      \<lparr>meteor_x = 360, meteor_y = 300, meteor_speed = 1, meteor_velocity_x = -1, meteor_velocity_y = 0\<rparr>]
   = Inr \<lparr>ship_x = 400, ship_y = 300, ship_velocity_x = 0, ship_velocity_y = 0, ship_angle = 0\<rparr>
   \<and> ship_x \<lparr>ship_x = 400, ship_y = 300, ship_velocity_x = 0, ship_velocity_y = 0, ship_angle = 0\<rparr> = WIDTH / 2
   \<and> ship_y \<lparr>ship_x = 400, ship_y = 300, ship_velocity_x = 0, ship_velocity_y = 0, ship_angle = 0\<rparr> = HEIGHT / 2
   \<and> apply_centering \<lparr>ship_x = 400, ship_y = 300, ship_velocity_x = 0, ship_velocity_y = 0, ship_angle = 0\<rparr> False
       = Inr \<lparr>ship_x = 400, ship_y = 300, ship_velocity_x = 0, ship_velocity_y = 0, ship_angle = 0\<rparr>"
proof -
  have run: "avoid_meteors
     \<lparr>ship_x = 400, ship_y = 300, ship_velocity_x = 0, ship_velocity_y = 0, ship_angle = 0\<rparr>
     [\<lparr>meteor_x = 440, meteor_y = 300, meteor_speed = 1, meteor_velocity_x = 1, meteor_velocity_y = 0\<rparr>,
      \<lparr>meteor_x = 360, meteor_y = 300, meteor_speed = 1, meteor_velocity_x = -1, meteor_velocity_y = 0\<rparr>]
   = Inr \<lparr>ship_x = 400, ship_y = 300, ship_velocity_x = 0, ship_velocity_y = 0, ship_angle = 0\<rparr>"
    by (simp add: avoid_meteors_def steer_def py_div_def apply_avoidance_eq apply_centering_eq
      limit_speed_eq calculate_angle_def move_within_bounds_def Let_def hypot_axis constants_defs)
  have centre:
    "ship_x \<lparr>ship_x = 400, ship_y = 300, ship_velocity_x = 0, ship_velocity_y = 0, ship_angle = 0\<rparr> = WIDTH / 2 \<and>
     ship_y \<lparr>ship_x = 400, ship_y = 300, ship_velocity_x = 0, ship_velocity_y = 0, ship_angle = 0\<rparr> = HEIGHT / 2"
    by (simp add: constants_defs)
  show ?thesis
    using run centre avoid_meteors_no_division_fault [of
     "\<lparr>ship_x = 400, ship_y = 300, ship_velocity_x = 0, ship_velocity_y = 0, ship_angle = 0\<rparr>"
     "[\<lparr>meteor_x = 440, meteor_y = 300, meteor_speed = 1, meteor_velocity_x = 1, meteor_velocity_y = 0\<rparr>,
       \<lparr>meteor_x = 360, meteor_y = 300, meteor_speed = 1, meteor_velocity_x = -1, meteor_velocity_y = 0\<rparr>]"]
    by blast
qed

subsection \<open>The autopilot: the position stays in the field\<close>

text \<open>
  C6. After \<open>avoid_meteors\<close> the position of the ship lies within
  [SPACESHIP_SIZE, WIDTH - SPACESHIP_SIZE] on the x axis and within
  [SPACESHIP_SIZE, HEIGHT - SPACESHIP_SIZE] on the y axis, that is within
  [10, 790] and [10, 590], whatever the ship and the meteors were.
\<close>

theorem avoid_meteors_within_bounds:
  assumes "avoid_meteors self ms = Inr s'"
  shows "SPACESHIP_SIZE \<le> ship_x s' \<and> ship_x s' \<le> WIDTH - SPACESHIP_SIZE \<and>
         SPACESHIP_SIZE \<le> ship_y s' \<and> ship_y s' \<le> HEIGHT - SPACESHIP_SIZE \<and>
         10 \<le> ship_x s' \<and> ship_x s' \<le> 790 \<and> 10 \<le> ship_y s' \<and> ship_y s' \<le> 590"
proof -
  from assms obtain q where "s' = move_within_bounds (calculate_angle q)"
    by (rule avoid_meteors_cases)
  then show ?thesis
    by (simp add: move_within_bounds_position constants_defs)
qed

theorem avoid_meteors_within_bounds_witness:
  "avoid_meteors \<lparr>ship_x = 788, ship_y = 300, ship_velocity_x = 10, ship_velocity_y = 0, ship_angle = 0\<rparr> []
     = Inr \<lparr>ship_x = 790, ship_y = 300, ship_velocity_x = 5, ship_velocity_y = 0, ship_angle = 0\<rparr>
   \<and> (10::real) \<le> 790 \<and> (790::real) \<le> WIDTH - SPACESHIP_SIZE"
proof -
  have run: "avoid_meteors \<lparr>ship_x = 788, ship_y = 300, ship_velocity_x = 10, ship_velocity_y = 0, ship_angle = 0\<rparr> []
     = Inr \<lparr>ship_x = 790, ship_y = 300, ship_velocity_x = 5, ship_velocity_y = 0, ship_angle = 0\<rparr>"
    by (simp add: avoid_meteors_def steer_def apply_avoidance_eq apply_centering_eq
      limit_speed_eq calculate_angle_def move_within_bounds_def Let_def hypot_axis constants_defs
      atan2_def degrees_def)
  show ?thesis
    using avoid_meteors_within_bounds [OF run] run by simp
qed

subsection \<open>Rounding to a double\<close>

lemma round_half_even_error: "\<bar>of_int (round_half_even y) - y\<bar> \<le> 1 / 2"
proof -
  have "of_int \<lfloor>y\<rfloor> \<le> y" "y < of_int \<lfloor>y\<rfloor> + 1"
    by linarith+
  then show ?thesis
    by (auto simp add: round_half_even_def Let_def)
qed

lemma round_double_zero [simp]: "round_double 0 = 0"
  by (simp add: round_double_def)

lemma round_double_binade:
  assumes "2 powr of_int e \<le> \<bar>x\<bar>" and "\<bar>x\<bar> < 2 powr (of_int e + 1)" and "- 1022 \<le> e"
  shows "round_double x =
     of_int (round_half_even (x / 2 powr (of_int e - 52))) * 2 powr (of_int e - 52)"
proof -
  have pos: "0 < \<bar>x\<bar>"
    using assms(1) powr_gt_zero [of 2 "of_int e"] by linarith
  then have "\<lfloor>log 2 \<bar>x\<bar>\<rfloor> = e"
    using assms(1,2) by (simp add: floor_log_eq_powr_iff)
  with pos assms(3) show ?thesis
    by (simp add: round_double_def Let_def max_def)
qed

lemma round_double_error:
  "\<bar>round_double x - x\<bar> \<le> 2 powr (- 53) * \<bar>x\<bar> + 2 powr (- 1075)"
proof (cases "x = 0")
  case True
  then show ?thesis by simp
next
  case False
  define e0 where "e0 = \<lfloor>log 2 \<bar>x\<bar>\<rfloor>"
  define e where "e = max e0 (- 1022)"
  define ulp :: real where "ulp = 2 powr (of_int e - 52)"
  have ulp_pos: "0 < ulp"
    by (simp add: ulp_def)
  have rd: "round_double x = of_int (round_half_even (x / ulp)) * ulp"
    using False by (simp add: round_double_def Let_def e0_def e_def ulp_def)
  have "of_int (round_half_even (x / ulp)) * ulp - x =
        (of_int (round_half_even (x / ulp)) - x / ulp) * ulp"
    using ulp_pos by (simp add: left_diff_distrib)
  then have "\<bar>round_double x - x\<bar> = \<bar>of_int (round_half_even (x / ulp)) - x / ulp\<bar> * ulp"
    using ulp_pos by (simp only: rd abs_mult abs_of_pos)
  also have "\<dots> \<le> 1 / 2 * ulp"
    using round_half_even_error [of "x / ulp"] ulp_pos by (intro mult_right_mono) simp_all
  also have "1 / 2 * ulp = 2 powr (of_int e - 53)"
    by (simp add: ulp_def powr_diff)
  finally have half: "\<bar>round_double x - x\<bar> \<le> 2 powr (of_int e - 53)" .
  show ?thesis
  proof (cases "e0 \<le> - 1022")
    case True
    then have "e = - 1022"
      by (simp add: e_def)
    then have "(2::real) powr (of_int e - 53) = 2 powr (- 1075)"
      by simp
    moreover have "0 \<le> 2 powr (- 53) * \<bar>x\<bar>"
      by simp
    ultimately show ?thesis
      using half by linarith
  next
    case False
    then have e: "e = e0"
      by (simp add: e_def)
    have "0 < \<bar>x\<bar>"
      using \<open>x \<noteq> 0\<close> by simp
    then have "2 powr of_int e0 \<le> \<bar>x\<bar>"
      using floor_log_eq_powr_iff [of "\<bar>x\<bar>" 2 e0] by (simp add: e0_def)
    then have "2 powr (of_int e - 53) \<le> 2 powr (- 53) * \<bar>x\<bar>"
      by (simp add: e powr_diff powr_minus field_simps)
    moreover have "0 \<le> (2::real) powr (- 1075)"
      by simp
    ultimately show ?thesis
      using half by linarith
  qed
qed

lemma round_half_even_of_int: "round_half_even (of_int z) = z"
  by (simp add: round_half_even_def Let_def)

lemma round_half_even_between:
  assumes "of_int k - 1 / 2 < y" and "y < of_int k + 1 / 2"
  shows "round_half_even y = k"
proof (cases "of_int k \<le> y")
  case True
  with assms have "\<lfloor>y\<rfloor> = k"
    by (simp add: floor_eq_iff)
  with assms show ?thesis
    by (simp add: round_half_even_def Let_def)
next
  case False
  with assms have "\<lfloor>y\<rfloor> = k - 1"
    by (simp add: floor_eq_iff)
  with assms False show ?thesis
    by (simp add: round_half_even_def Let_def)
qed

lemma round_double_of_int:
  assumes "\<bar>n\<bar> < 2 ^ 53"
  shows "round_double (of_int n) = of_int n"
proof (cases "n = 0")
  case True
  then show ?thesis by simp
next
  case False
  define e where "e = \<lfloor>log 2 \<bar>real_of_int n\<bar>\<rfloor>"
  have one: "1 \<le> \<bar>real_of_int n\<bar>"
  proof -
    have "1 \<le> \<bar>n\<bar>"
      using False by linarith
    then have "real_of_int 1 \<le> real_of_int \<bar>n\<bar>"
      by (simp only: of_int_le_iff)
    then show ?thesis by simp
  qed
  have lt: "\<bar>real_of_int n\<bar> < 2 ^ 53"
  proof -
    have "real_of_int \<bar>n\<bar> < real_of_int (2 ^ 53)"
      using assms by (simp only: of_int_less_iff)
    then show ?thesis by simp
  qed
  have e_lo: "0 \<le> e"
    unfolding e_def using one by simp
  have "log 2 \<bar>real_of_int n\<bar> < 53"
    using lt one by (simp add: log_less_iff)
  then have e_hi: "e \<le> 52"
    unfolding e_def by linarith
  define k where "k = nat (52 - e)"
  have ulp: "(2::real) powr (real_of_int e - 52) = 1 / 2 ^ k"
  proof -
    have "real_of_int e - 52 = - real k"
      using e_hi by (simp add: k_def)
    then show ?thesis
      by (simp add: powr_minus powr_realpow inverse_eq_divide)
  qed
  have "round_double (of_int n) =
      of_int (round_half_even (of_int n / (1 / 2 ^ k))) * (1 / 2 ^ k)"
    using False e_lo by (simp add: round_double_def Let_def e_def [symmetric] max_def ulp)
  also have "of_int n / (1 / 2 ^ k) = real_of_int (n * 2 ^ k)"
    by simp
  finally show ?thesis
    by (simp only: round_half_even_of_int) simp
qed

lemma round_double_numeral:
  "numeral w < (9007199254740992::int) \<Longrightarrow> round_double (numeral w) = numeral w"
  using round_double_of_int [of "numeral w"] by simp

lemma round_double_neg_numeral:
  "numeral w < (9007199254740992::int) \<Longrightarrow> round_double (- numeral w) = - numeral w"
  using round_double_of_int [of "- numeral w"] by simp

lemma round_double_one: "round_double 1 = 1"
  using round_double_of_int [of 1] by simp

lemma round_double_neg_one: "round_double (- 1) = - 1"
  using round_double_of_int [of "- 1"] by simp

lemma round_double_half: "round_double (1 / 2) = 1 / 2"
proof -
  have "round_double (1 / 2) =
     of_int (round_half_even ((1 / 2) / 2 powr (of_int (- 1) - 52))) * 2 powr (of_int (- 1) - 52)"
    by (rule round_double_binade) (simp_all add: powr_neg_numeral)
  then show ?thesis
    by (simp add: powr_neg_numeral round_half_even_def Let_def)
qed

subsection \<open>The autopilot with rounding: its branches and its results\<close>

text \<open>With \<open>exact_ops\<close> the rounded autopilot is the one of the first part.\<close>

lemma fl_div_nonzero: "b \<noteq> 0 \<Longrightarrow> fl_div ops a b = Inr (fl_round ops (a / b))"
  by (simp add: fl_div_def py_div_def)

lemma fl_div_exact: "fl_div exact_ops a b = py_div a b"
  by (simp add: fl_div_def exact_ops_def py_div_def)

lemma threat_scan_fl_exact: "threat_scan_fl exact_ops self acc ms = threat_scan self acc ms"
proof (induction ms arbitrary: acc)
  case Nil
  show ?case by simp
next
  case (Cons m ms)
  obtain a0 a1 d where acc: "acc = ((a0, a1), d)"
    by (metis surj_pair)
  show ?case
    unfolding acc by (simp add: Let_def fl_div_exact Cons.IH) (auto simp add: exact_ops_def)
qed

lemma apply_avoidance_fl_exact: "apply_avoidance_fl exact_ops self av = apply_avoidance self av"
  by (simp add: apply_avoidance_fl_def apply_avoidance_def fl_div_exact Let_def)
     (simp add: exact_ops_def)

lemma apply_centering_fl_exact: "apply_centering_fl exact_ops self d = apply_centering self d"
  by (simp add: apply_centering_fl_def apply_centering_def fl_div_exact Let_def)
     (simp add: exact_ops_def)

lemma steer_fl_exact: "steer_fl exact_ops self ms = steer self ms"
  by (simp add: steer_fl_def steer_def threat_scan_fl_exact apply_avoidance_fl_exact
      apply_centering_fl_exact)

lemma limit_speed_fl_exact: "limit_speed_fl exact_ops self = limit_speed self"
  by (simp add: limit_speed_fl_def limit_speed_def fl_div_exact Let_def)
     (simp add: exact_ops_def)

lemma avoid_meteors_fl_exact: "avoid_meteors_fl exact_ops self ms = avoid_meteors self ms"
proof -
  have "calculate_angle_fl exact_ops s = calculate_angle s" for s
    by (simp add: calculate_angle_fl_def calculate_angle_def exact_ops_def)
  moreover have "move_within_bounds_fl exact_ops s = move_within_bounds s" for s
    by (simp add: move_within_bounds_fl_def move_within_bounds_def exact_ops_def)
  ultimately show ?thesis
    by (simp add: avoid_meteors_fl_def avoid_meteors_def steer_fl_exact limit_speed_fl_exact)
qed

lemma threat_scan_fl_step:
  "threat_scan_fl ops self ((a0, a1), d) (m # rest) =
     (if fl_hypot ops (fl_round ops (ship_x self - meteor_x m)) (fl_round ops (ship_y self - meteor_y m))
           < DETECTION_RADIUS \<and>
         0 < fl_hypot ops (fl_round ops (ship_x self - meteor_x m)) (fl_round ops (ship_y self - meteor_y m))
      then threat_scan_fl ops self
             ((fl_round ops (a0 + fl_round ops (fl_round ops (ship_x self - meteor_x m) /
                 fl_hypot ops (fl_round ops (ship_x self - meteor_x m)) (fl_round ops (ship_y self - meteor_y m)))),
               fl_round ops (a1 + fl_round ops (fl_round ops (ship_y self - meteor_y m) /
                 fl_hypot ops (fl_round ops (ship_x self - meteor_x m)) (fl_round ops (ship_y self - meteor_y m))))),
              True) rest
      else threat_scan_fl ops self ((a0, a1), d) rest)"
  by (simp add: Let_def fl_div_nonzero)

lemma threat_scan_fl_fold:
  "threat_scan_fl ops self (a, d) ms =
     Inr (foldl
            (\<lambda>a m.
               (fl_round ops (fst a + fl_round ops (fl_round ops (ship_x self - meteor_x m) /
                  fl_hypot ops (fl_round ops (ship_x self - meteor_x m)) (fl_round ops (ship_y self - meteor_y m)))),
                fl_round ops (snd a + fl_round ops (fl_round ops (ship_y self - meteor_y m) /
                  fl_hypot ops (fl_round ops (ship_x self - meteor_x m)) (fl_round ops (ship_y self - meteor_y m))))))
            a
            (filter
               (\<lambda>m. fl_hypot ops (fl_round ops (ship_x self - meteor_x m)) (fl_round ops (ship_y self - meteor_y m))
                       < DETECTION_RADIUS \<and>
                     0 < fl_hypot ops (fl_round ops (ship_x self - meteor_x m)) (fl_round ops (ship_y self - meteor_y m)))
               ms),
          d \<or> (\<exists>m\<in>set ms.
                 fl_hypot ops (fl_round ops (ship_x self - meteor_x m)) (fl_round ops (ship_y self - meteor_y m))
                   < DETECTION_RADIUS \<and>
                 0 < fl_hypot ops (fl_round ops (ship_x self - meteor_x m)) (fl_round ops (ship_y self - meteor_y m))))"
proof (induction ms arbitrary: a d)
  case Nil
  show ?case by simp
next
  case (Cons m ms)
  obtain a0 a1 where a: "a = (a0, a1)"
    by (metis surj_pair)
  show ?case
    unfolding a threat_scan_fl_step by (auto simp add: Cons.IH)
qed

lemma apply_avoidance_fl_eq:
  "apply_avoidance_fl ops self av =
     Inr (if 0 < fl_hypot ops (fst av) (snd av)
          then self\<lparr>ship_velocity_x :=
                      fl_round ops (ship_velocity_x self +
                        fl_round ops (fl_round ops (fst av / fl_hypot ops (fst av) (snd av)) *
                          fl_round ops AVOIDANCE_STRENGTH)),
                    ship_velocity_y :=
                      fl_round ops (ship_velocity_y self +
                        fl_round ops (fl_round ops (snd av / fl_hypot ops (fst av) (snd av)) *
                          fl_round ops AVOIDANCE_STRENGTH))\<rparr>
          else self)"
  by (simp add: apply_avoidance_fl_def Let_def fl_div_nonzero)

lemma apply_centering_fl_eq:
  "apply_centering_fl ops self in_danger =
     Inr (if in_danger then self
          else self\<lparr>ship_velocity_x :=
                      fl_round ops (ship_velocity_x self +
                        fl_round ops
                          ((if fl_hypot ops (fl_round ops (fl_round ops (WIDTH / 2) - ship_x self))
                                 (fl_round ops (fl_round ops (HEIGHT / 2) - ship_y self)) \<noteq> 0
                            then fl_round ops (fl_round ops (fl_round ops (WIDTH / 2) - ship_x self) /
                                   fl_hypot ops (fl_round ops (fl_round ops (WIDTH / 2) - ship_x self))
                                     (fl_round ops (fl_round ops (HEIGHT / 2) - ship_y self)))
                            else fl_round ops (fl_round ops (WIDTH / 2) - ship_x self)) *
                           fl_round ops CENTERING_STRENGTH)),
                    ship_velocity_y :=
                      fl_round ops (ship_velocity_y self +
                        fl_round ops
                          ((if fl_hypot ops (fl_round ops (fl_round ops (WIDTH / 2) - ship_x self))
                                 (fl_round ops (fl_round ops (HEIGHT / 2) - ship_y self)) \<noteq> 0
                            then fl_round ops (fl_round ops (fl_round ops (HEIGHT / 2) - ship_y self) /
                                   fl_hypot ops (fl_round ops (fl_round ops (WIDTH / 2) - ship_x self))
                                     (fl_round ops (fl_round ops (HEIGHT / 2) - ship_y self)))
                            else fl_round ops (fl_round ops (HEIGHT / 2) - ship_y self)) *
                           fl_round ops CENTERING_STRENGTH))\<rparr>)"
  by (simp add: apply_centering_fl_def Let_def fl_div_nonzero)

lemma limit_speed_fl_eq:
  "limit_speed_fl ops self =
     Inr (if MAX_SPEED < fl_hypot ops (ship_velocity_x self) (ship_velocity_y self)
          then self\<lparr>ship_velocity_x :=
                      fl_round ops (fl_round ops (ship_velocity_x self /
                        fl_hypot ops (ship_velocity_x self) (ship_velocity_y self)) * MAX_SPEED),
                    ship_velocity_y :=
                      fl_round ops (fl_round ops (ship_velocity_y self /
                        fl_hypot ops (ship_velocity_x self) (ship_velocity_y self)) * MAX_SPEED)\<rparr>
          else self)"
proof -
  have "MAX_SPEED < fl_hypot ops (ship_velocity_x self) (ship_velocity_y self) \<Longrightarrow>
        fl_hypot ops (ship_velocity_x self) (ship_velocity_y self) \<noteq> 0"
    by (simp add: MAX_SPEED_def)
  then show ?thesis
    by (simp add: limit_speed_fl_def Let_def fl_div_nonzero)
qed

lemma steer_fl_total: "\<exists>p. steer_fl ops self ms = Inr p"
  by (simp add: steer_fl_def threat_scan_fl_fold apply_avoidance_fl_eq apply_centering_fl_eq)

lemma avoid_meteors_fl_total: "\<exists>s'. avoid_meteors_fl ops self ms = Inr s'"
proof -
  obtain p where "steer_fl ops self ms = Inr p"
    using steer_fl_total by blast
  then show ?thesis
    by (simp add: avoid_meteors_fl_def limit_speed_fl_eq)
qed

lemma avoid_meteors_fl_velocity:
  assumes "steer_fl ops self ms = Inr p" and "avoid_meteors_fl ops self ms = Inr s'"
  shows "ship_velocity_x s' =
           (if MAX_SPEED < fl_hypot ops (ship_velocity_x p) (ship_velocity_y p)
            then fl_round ops (fl_round ops (ship_velocity_x p /
                   fl_hypot ops (ship_velocity_x p) (ship_velocity_y p)) * MAX_SPEED)
            else ship_velocity_x p)"
    and "ship_velocity_y s' =
           (if MAX_SPEED < fl_hypot ops (ship_velocity_x p) (ship_velocity_y p)
            then fl_round ops (fl_round ops (ship_velocity_y p /
                   fl_hypot ops (ship_velocity_x p) (ship_velocity_y p)) * MAX_SPEED)
            else ship_velocity_y p)"
  using assms
  by (auto simp add: avoid_meteors_fl_def limit_speed_fl_eq calculate_angle_fl_def
      move_within_bounds_fl_def Let_def)

subsection \<open>The rounding error of a rescaled vector\<close>

lemma hypot_commute: "hypot a b = hypot b a"
  by (simp add: hypot_def add.commute)

lemma hypot_cmod: "hypot a b = cmod (Complex a b)"
  by (simp add: hypot_def cmod_def power2_eq_square)

lemma abs_le_hypot: "\<bar>a\<bar> \<le> hypot a b"
  using abs_Re_le_cmod [of "Complex a b"] by (simp add: hypot_cmod)

lemma hypot_diff_le:
  "\<bar>hypot a b - hypot c d\<bar> \<le> \<bar>a - c\<bar> + \<bar>b - d\<bar>"
proof -
  have "\<bar>cmod (Complex a b) - cmod (Complex c d)\<bar> \<le> cmod (Complex a b - Complex c d)"
    by (rule norm_triangle_ineq3)
  also have "\<dots> \<le> \<bar>Re (Complex a b - Complex c d)\<bar> + \<bar>Im (Complex a b - Complex c d)\<bar>"
    by (rule cmod_le)
  finally show ?thesis
    by (simp add: hypot_cmod)
qed

lemma hypot_unit_scaled:
  assumes "0 < hypot a b" and "0 \<le> M"
  shows "hypot (M * (a / hypot a b)) (M * (b / hypot a b)) = M"
proof -
  have "hypot ((M / hypot a b) * a) ((M / hypot a b) * b) = \<bar>M / hypot a b\<bar> * hypot a b"
    by (rule hypot_scale)
  with assms show ?thesis by simp
qed

lemma rescale_component_error:
  assumes s: "0 < s"
    and acc: "\<bar>s - hypot a b\<bar> \<le> 2 powr (- 51) * hypot a b"
    and M: "1 / 2 \<le> M" "M \<le> 5"
  shows "\<bar>round_double (round_double (a / s) * M) - M * (a / hypot a b)\<bar> \<le> M * 2 powr (- 50)"
proof -
  define h where "h = hypot a b"
  define r where "r = \<bar>a / s\<bar>"
  define q where "q = round_double (a / s)"
  define w where "w = round_double (q * M)"
  have eps: "(2::real) powr (- 51) = 1 / 2 ^ 51"
    by (simp add: powr_neg_numeral)
  have acc': "\<bar>s - h\<bar> \<le> h / 2 ^ 51"
    using acc by (simp add: h_def eps)
  have h_pos: "0 < h"
    using s acc' by (cases "h \<le> 0") (auto simp add: field_simps)
  have a_le: "\<bar>a\<bar> \<le> h"
    unfolding h_def by (rule abs_le_hypot)
  have h_le: "h \<le> (1 + 1 / 2 ^ 50) * s"
  proof -
    have "h - h / 2 ^ 51 \<le> s"
      using acc' by linarith
    then have "(1 + 1 / 2 ^ 50) * (h - h / 2 ^ 51) \<le> (1 + 1 / 2 ^ 50) * s"
      by (intro mult_left_mono) simp_all
    moreover have "h \<le> (1 + 1 / 2 ^ 50) * (h - h / 2 ^ 51)"
      using h_pos by (simp add: field_simps)
    ultimately show ?thesis by linarith
  qed
  have r_le: "r \<le> 1 + 1 / 2 ^ 50"
  proof -
    have "\<bar>a\<bar> \<le> (1 + 1 / 2 ^ 50) * s"
      using a_le h_le by linarith
    then have "\<bar>a\<bar> / s \<le> 1 + 1 / 2 ^ 50"
      using s by (simp add: field_simps)
    then show ?thesis
      using s by (simp add: r_def)
  qed
  have r_nonneg: "0 \<le> r"
    by (simp add: r_def)
  have F1: "\<bar>q - a / s\<bar> \<le> r / 2 ^ 53 + 1 / 2 ^ 1075"
    using round_double_error [of "a / s"]
    by (simp add: q_def r_def powr_neg_numeral)
  have F2: "\<bar>w - q * M\<bar> \<le> \<bar>q * M\<bar> / 2 ^ 53 + 1 / 2 ^ 1075"
    using round_double_error [of "q * M"]
    by (simp add: w_def powr_neg_numeral)
  have ratio: "\<bar>1 - s / h\<bar> \<le> 1 / 2 ^ 51"
  proof -
    have "\<bar>1 - s / h\<bar> = \<bar>s - h\<bar> / h"
      using h_pos by (simp add: field_simps abs_minus_commute)
    also have "\<dots> \<le> (h / 2 ^ 51) / h"
      using acc' h_pos by (intro divide_right_mono) simp_all
    also have "\<dots> = 1 / 2 ^ 51"
      using h_pos by simp
    finally show ?thesis .
  qed
  have F3: "\<bar>a / s - a / h\<bar> \<le> r / 2 ^ 51"
  proof -
    have "a / s - a / h = (a / s) * (1 - s / h)"
      using s h_pos by (simp add: field_simps)
    then have "\<bar>a / s - a / h\<bar> = r * \<bar>1 - s / h\<bar>"
      by (simp add: abs_mult r_def)
    also have "\<dots> \<le> r * (1 / 2 ^ 51)"
      using ratio r_nonneg by (intro mult_left_mono) simp_all
    finally show ?thesis by simp
  qed
  have M_pos: "0 < M"
    using M by simp
  define P where "P = r * M"
  have P_nonneg: "0 \<le> P"
    using r_nonneg M_pos by (simp add: P_def)
  have P_le: "P \<le> (1 + 1 / 2 ^ 50) * M"
    unfolding P_def using r_le M_pos by (intro mult_right_mono) simp_all
  have q_abs: "\<bar>q\<bar> \<le> r + r / 2 ^ 53 + 1 / 2 ^ 1075"
  proof -
    have "\<bar>q\<bar> \<le> \<bar>q - a / s\<bar> + r"
      unfolding r_def by linarith
    with F1 show ?thesis by linarith
  qed
  have qM_abs: "\<bar>q * M\<bar> \<le> P + P / 2 ^ 53 + M / 2 ^ 1075"
  proof -
    have "\<bar>q * M\<bar> = \<bar>q\<bar> * M"
      using M_pos by (simp add: abs_mult)
    also have "\<dots> \<le> (r + r / 2 ^ 53 + 1 / 2 ^ 1075) * M"
      using q_abs M_pos by (intro mult_right_mono) simp_all
    finally show ?thesis
      by (simp add: P_def algebra_simps)
  qed
  have G1: "\<bar>q * M - M * (a / s)\<bar> \<le> P / 2 ^ 53 + M / 2 ^ 1075"
  proof -
    have "q * M - M * (a / s) = (q - a / s) * M"
      by (simp add: algebra_simps)
    then have "\<bar>q * M - M * (a / s)\<bar> = \<bar>q - a / s\<bar> * M"
      using M_pos by (simp only: abs_mult abs_of_pos)
    also have "\<dots> \<le> (r / 2 ^ 53 + 1 / 2 ^ 1075) * M"
      using F1 M_pos by (intro mult_right_mono) simp_all
    finally show ?thesis
      by (simp add: P_def algebra_simps)
  qed
  have G2: "\<bar>M * (a / s) - M * (a / h)\<bar> \<le> P / 2 ^ 51"
  proof -
    have "M * (a / s) - M * (a / h) = (a / s - a / h) * M"
      by (simp add: algebra_simps)
    then have "\<bar>M * (a / s) - M * (a / h)\<bar> = \<bar>a / s - a / h\<bar> * M"
      using M_pos by (simp only: abs_mult abs_of_pos)
    also have "\<dots> \<le> (r / 2 ^ 51) * M"
      using F3 M_pos by (intro mult_right_mono) simp_all
    finally show ?thesis
      by (simp add: P_def algebra_simps)
  qed
  have "\<bar>w - M * (a / h)\<bar> \<le>
        \<bar>w - q * M\<bar> + \<bar>q * M - M * (a / s)\<bar> + \<bar>M * (a / s) - M * (a / h)\<bar>"
    by linarith
  also have "\<dots> \<le> ((P + P / 2 ^ 53 + M / 2 ^ 1075) / 2 ^ 53 + 1 / 2 ^ 1075)
        + (P / 2 ^ 53 + M / 2 ^ 1075) + P / 2 ^ 51"
  proof -
    have "\<bar>q * M\<bar> / 2 ^ 53 \<le> (P + P / 2 ^ 53 + M / 2 ^ 1075) / 2 ^ 53"
      using qM_abs by (intro divide_right_mono) simp_all
    then have "\<bar>q * M\<bar> / 2 ^ 53 + 1 / 2 ^ 1075 \<le>
        (P + P / 2 ^ 53 + M / 2 ^ 1075) / 2 ^ 53 + 1 / 2 ^ 1075"
      by (rule add_right_mono)
    with F2 have "\<bar>w - q * M\<bar> \<le> (P + P / 2 ^ 53 + M / 2 ^ 1075) / 2 ^ 53 + 1 / 2 ^ 1075"
      by (rule order_trans)
    then show ?thesis
      by (intro add_mono G1 G2)
  qed
  also have "\<dots> \<le> M / 2 ^ 50"
    using P_le P_nonneg M by (simp add: field_simps)
  finally show ?thesis
    by (simp add: w_def q_def h_def powr_neg_numeral)
qed

lemma rescale_magnitude_error:
  assumes s: "0 < s"
    and acc: "\<bar>s - hypot a b\<bar> \<le> 2 powr (- 51) * hypot a b"
    and M: "1 / 2 \<le> M" "M \<le> 5"
  shows "\<bar>hypot (round_double (round_double (a / s) * M)) (round_double (round_double (b / s) * M)) - M\<bar>
           \<le> M * 2 powr (- 49)"
proof -
  have h_pos: "0 < hypot a b"
  proof (rule ccontr)
    assume "\<not> 0 < hypot a b"
    then have "hypot a b = 0"
      using hypot_nonneg [of a b] by linarith
    with acc s show False by simp
  qed
  have acc2: "\<bar>s - hypot b a\<bar> \<le> 2 powr (- 51) * hypot b a"
    using acc by (simp add: hypot_commute)
  have e0: "\<bar>round_double (round_double (a / s) * M) - M * (a / hypot a b)\<bar> \<le> M * 2 powr (- 50)"
    by (rule rescale_component_error [OF s acc M])
  have e1: "\<bar>round_double (round_double (b / s) * M) - M * (b / hypot a b)\<bar> \<le> M * 2 powr (- 50)"
    using rescale_component_error [OF s acc2 M] by (simp add: hypot_commute)
  have target: "hypot (M * (a / hypot a b)) (M * (b / hypot a b)) = M"
    using h_pos M by (intro hypot_unit_scaled) simp_all
  have "\<bar>hypot (round_double (round_double (a / s) * M)) (round_double (round_double (b / s) * M))
          - hypot (M * (a / hypot a b)) (M * (b / hypot a b))\<bar>
        \<le> \<bar>round_double (round_double (a / s) * M) - M * (a / hypot a b)\<bar>
          + \<bar>round_double (round_double (b / s) * M) - M * (b / hypot a b)\<bar>"
    by (rule hypot_diff_le)
  also have "\<dots> \<le> M * 2 powr (- 50) + M * 2 powr (- 50)"
    by (intro add_mono e0 e1)
  also have "\<dots> = M * 2 powr (- 49)"
    by (simp add: powr_neg_numeral)
  finally show ?thesis
    by (simp only: target)
qed

subsection \<open>The values at the inputs evaluated below\<close>

lemma hypot_square: "(hypot a b)\<^sup>2 = a * a + b * b"
  by (simp add: hypot_def)

lemma hypot_eqI: "0 \<le> c \<Longrightarrow> a * a + b * b = c * c \<Longrightarrow> hypot a b = c"
  by (simp add: hypot_def real_sqrt_unique power2_eq_square)

lemma hypot_5_12: "hypot 5 12 = 13"
  by (rule hypot_eqI) simp_all

lemma hypot_30_40:
  "hypot 30 40 = 50" "hypot 40 30 = 50" "hypot (- 30) (- 40) = 50" "hypot (- 40) (- 30) = 50"
  by (rule hypot_eqI; simp)+

lemma rd_tenth: "round_double (1 / 10) = 3602879701896397 / 36028797018963968"
proof -
  have "round_double (1 / 10) =
     of_int (round_half_even ((1 / 10) / 2 powr (of_int (- 4) - 52))) * 2 powr (of_int (- 4) - 52)"
    by (rule round_double_binade) (simp_all add: powr_neg_numeral)
  then show ?thesis
    by (simp add: powr_neg_numeral round_half_even_def Let_def)
qed

lemma rd_neg_tenth_double: "round_double (- (3602879701896397 / 36028797018963968)) = - (3602879701896397 / 36028797018963968)"
proof -
  have "round_double (- (3602879701896397 / 36028797018963968)) =
     of_int (round_half_even ((- (3602879701896397 / 36028797018963968)) / 2 powr (of_int (- 4) - 52))) * 2 powr (of_int (- 4) - 52)"
    by (rule round_double_binade) (simp_all add: powr_neg_numeral)
  then show ?thesis
    by (simp add: powr_neg_numeral round_half_even_def Let_def)
qed

lemma rd_neg_half: "round_double (- (1 / 2)) = - (1 / 2)"
proof -
  have "round_double (- (1 / 2)) =
     of_int (round_half_even ((- (1 / 2)) / 2 powr (of_int (- 1) - 52))) * 2 powr (of_int (- 1) - 52)"
    by (rule round_double_binade) (simp_all add: powr_neg_numeral)
  then show ?thesis
    by (simp add: powr_neg_numeral round_half_even_def Let_def)
qed

lemma rd_5_13: "round_double (5 / 13) = 6928614811339225 / 18014398509481984"
proof -
  have "round_double (5 / 13) =
     of_int (round_half_even ((5 / 13) / 2 powr (of_int (- 2) - 52))) * 2 powr (of_int (- 2) - 52)"
    by (rule round_double_binade) (simp_all add: powr_neg_numeral)
  then show ?thesis
    by (simp add: powr_neg_numeral round_half_even_def Let_def)
qed

lemma rd_12_13: "round_double (12 / 13) = 4157168886803535 / 4503599627370496"
proof -
  have "round_double (12 / 13) =
     of_int (round_half_even ((12 / 13) / 2 powr (of_int (- 1) - 52))) * 2 powr (of_int (- 1) - 52)"
    by (rule round_double_binade) (simp_all add: powr_neg_numeral)
  then show ?thesis
    by (simp add: powr_neg_numeral round_half_even_def Let_def)
qed

lemma rd_q0_5: "round_double (34643074056696125 / 18014398509481984) = 8660768514174031 / 4503599627370496"
proof -
  have "round_double (34643074056696125 / 18014398509481984) =
     of_int (round_half_even ((34643074056696125 / 18014398509481984) / 2 powr (of_int (0) - 52))) * 2 powr (of_int (0) - 52)"
    by (rule round_double_binade) (simp_all add: powr_neg_numeral)
  then show ?thesis
    by (simp add: powr_neg_numeral round_half_even_def Let_def)
qed

lemma rd_q1_5: "round_double (20785844434017675 / 4503599627370496) = 5196461108504419 / 1125899906842624"
proof -
  have "round_double (20785844434017675 / 4503599627370496) =
     of_int (round_half_even ((20785844434017675 / 4503599627370496) / 2 powr (of_int (2) - 52))) * 2 powr (of_int (2) - 52)"
    by (rule round_double_binade) (simp_all add: powr_neg_numeral)
  then show ?thesis
    by (simp add: powr_neg_numeral round_half_even_def Let_def)
qed

lemma rd_x_moved: "round_double (1810100619462372431 / 4503599627370496) = 1767676386193723 / 4398046511104"
proof -
  have "round_double (1810100619462372431 / 4503599627370496) =
     of_int (round_half_even ((1810100619462372431 / 4503599627370496) / 2 powr (of_int (8) - 52))) * 2 powr (of_int (8) - 52)"
    by (rule round_double_binade) (simp_all add: powr_neg_numeral)
  then show ?thesis
    by (simp add: powr_neg_numeral round_half_even_def Let_def)
qed

lemma rd_y_moved: "round_double (342966433161291619 / 1125899906842624) = 2679425259072591 / 8796093022208"
proof -
  have "round_double (342966433161291619 / 1125899906842624) =
     of_int (round_half_even ((342966433161291619 / 1125899906842624) / 2 powr (of_int (8) - 52))) * 2 powr (of_int (8) - 52)"
    by (rule round_double_binade) (simp_all add: powr_neg_numeral)
  then show ?thesis
    by (simp add: powr_neg_numeral round_half_even_def Let_def)
qed

lemma rd_3_5: "round_double (3 / 5) = 5404319552844595 / 9007199254740992"
proof -
  have "round_double (3 / 5) =
     of_int (round_half_even ((3 / 5) / 2 powr (of_int (- 1) - 52))) * 2 powr (of_int (- 1) - 52)"
    by (rule round_double_binade) (simp_all add: powr_neg_numeral)
  then show ?thesis
    by (simp add: powr_neg_numeral round_half_even_def Let_def)
qed

lemma rd_4_5: "round_double (4 / 5) = 3602879701896397 / 4503599627370496"
proof -
  have "round_double (4 / 5) =
     of_int (round_half_even ((4 / 5) / 2 powr (of_int (- 1) - 52))) * 2 powr (of_int (- 1) - 52)"
    by (rule round_double_binade) (simp_all add: powr_neg_numeral)
  then show ?thesis
    by (simp add: powr_neg_numeral round_half_even_def Let_def)
qed

lemma rd_neg_3_5: "round_double (- (3 / 5)) = - (5404319552844595 / 9007199254740992)"
proof -
  have "round_double (- (3 / 5)) =
     of_int (round_half_even ((- (3 / 5)) / 2 powr (of_int (- 1) - 52))) * 2 powr (of_int (- 1) - 52)"
    by (rule round_double_binade) (simp_all add: powr_neg_numeral)
  then show ?thesis
    by (simp add: powr_neg_numeral round_half_even_def Let_def)
qed

lemma rd_neg_4_5: "round_double (- (4 / 5)) = - (3602879701896397 / 4503599627370496)"
proof -
  have "round_double (- (4 / 5)) =
     of_int (round_half_even ((- (4 / 5)) / 2 powr (of_int (- 1) - 52))) * 2 powr (of_int (- 1) - 52)"
    by (rule round_double_binade) (simp_all add: powr_neg_numeral)
  then show ?thesis
    by (simp add: powr_neg_numeral round_half_even_def Let_def)
qed

lemma rd_u6: "round_double (5404319552844595 / 9007199254740992) = 5404319552844595 / 9007199254740992"
proof -
  have "round_double (5404319552844595 / 9007199254740992) =
     of_int (round_half_even ((5404319552844595 / 9007199254740992) / 2 powr (of_int (- 1) - 52))) * 2 powr (of_int (- 1) - 52)"
    by (rule round_double_binade) (simp_all add: powr_neg_numeral)
  then show ?thesis
    by (simp add: powr_neg_numeral round_half_even_def Let_def)
qed

lemma rd_u8: "round_double (3602879701896397 / 4503599627370496) = 3602879701896397 / 4503599627370496"
proof -
  have "round_double (3602879701896397 / 4503599627370496) =
     of_int (round_half_even ((3602879701896397 / 4503599627370496) / 2 powr (of_int (- 1) - 52))) * 2 powr (of_int (- 1) - 52)"
    by (rule round_double_binade) (simp_all add: powr_neg_numeral)
  then show ?thesis
    by (simp add: powr_neg_numeral round_half_even_def Let_def)
qed

lemma rd_u6_u8: "round_double (12610078956637389 / 9007199254740992) = 3152519739159347 / 2251799813685248"
proof -
  have "round_double (12610078956637389 / 9007199254740992) =
     of_int (round_half_even ((12610078956637389 / 9007199254740992) / 2 powr (of_int (0) - 52))) * 2 powr (of_int (0) - 52)"
    by (rule round_double_binade) (simp_all add: powr_neg_numeral)
  then show ?thesis
    by (simp add: powr_neg_numeral round_half_even_def Let_def)
qed

lemma rd_s_minus_u6: "round_double (7205759403792793 / 9007199254740992) = 7205759403792793 / 9007199254740992"
proof -
  have "round_double (7205759403792793 / 9007199254740992) =
     of_int (round_half_even ((7205759403792793 / 9007199254740992) / 2 powr (of_int (- 1) - 52))) * 2 powr (of_int (- 1) - 52)"
    by (rule round_double_binade) (simp_all add: powr_neg_numeral)
  then show ?thesis
    by (simp add: powr_neg_numeral round_half_even_def Let_def)
qed

lemma rd_a0_minus_u8: "round_double (- (1 / 9007199254740992)) = - (1 / 9007199254740992)"
proof -
  have "round_double (- (1 / 9007199254740992)) =
     of_int (round_half_even ((- (1 / 9007199254740992)) / 2 powr (of_int (- 53) - 52))) * 2 powr (of_int (- 53) - 52)"
    by (rule round_double_binade) (simp_all add: powr_neg_numeral)
  then show ?thesis
    by (simp add: powr_neg_numeral round_half_even_def Let_def)
qed

lemma rd_s_minus_u8: "round_double (2702159776422297 / 4503599627370496) = 2702159776422297 / 4503599627370496"
proof -
  have "round_double (2702159776422297 / 4503599627370496) =
     of_int (round_half_even ((2702159776422297 / 4503599627370496) / 2 powr (of_int (- 1) - 52))) * 2 powr (of_int (- 1) - 52)"
    by (rule round_double_binade) (simp_all add: powr_neg_numeral)
  then show ?thesis
    by (simp add: powr_neg_numeral round_half_even_def Let_def)
qed

lemma rd_a_over_len: "round_double (- (4503599627370496 / 6369051672525773)) = - (1592262918131443 / 2251799813685248)"
proof -
  have "round_double (- (4503599627370496 / 6369051672525773)) =
     of_int (round_half_even ((- (4503599627370496 / 6369051672525773)) / 2 powr (of_int (- 1) - 52))) * 2 powr (of_int (- 1) - 52)"
    by (rule round_double_binade) (simp_all add: powr_neg_numeral)
  then show ?thesis
    by (simp add: powr_neg_numeral round_half_even_def Let_def)
qed

lemma rd_n_half: "round_double (- (1592262918131443 / 4503599627370496)) = - (1592262918131443 / 4503599627370496)"
proof -
  have "round_double (- (1592262918131443 / 4503599627370496)) =
     of_int (round_half_even ((- (1592262918131443 / 4503599627370496)) / 2 powr (of_int (- 2) - 52))) * 2 powr (of_int (- 2) - 52)"
    by (rule round_double_binade) (simp_all add: powr_neg_numeral)
  then show ?thesis
    by (simp add: powr_neg_numeral round_half_even_def Let_def)
qed

lemmas rd_values =
  rd_tenth
  rd_neg_tenth_double
  rd_neg_half
  rd_5_13
  rd_12_13
  rd_q0_5
  rd_q1_5
  rd_x_moved
  rd_y_moved
  rd_3_5
  rd_4_5
  rd_neg_3_5
  rd_neg_4_5
  rd_u6
  rd_u8
  rd_u6_u8
  rd_s_minus_u6
  rd_a0_minus_u8
  rd_s_minus_u8
  rd_a_over_len
  rd_n_half

lemma hypot_gt_5: "25 < a * a + b * b \<Longrightarrow> 5 < hypot a b"
  unfolding hypot_def by (rule real_less_rsqrt) simp

lemma rd_len:
  "round_double (hypot (- (1 / 9007199254740992)) (- (1 / 9007199254740992))) =
     6369051672525773 / 40564819207303340847894502572032"
proof -
  define x where "x = hypot (- (1 / 9007199254740992)) (- (1 / 9007199254740992))"
  have x_nonneg: "0 \<le> x"
    unfolding x_def by (rule hypot_nonneg)
  have x_sq: "x\<^sup>2 = 1 / 2 ^ 105"
    unfolding x_def hypot_square by simp
  have lo: "1 / 2 ^ 53 \<le> x"
    by (rule power2_le_imp_le [OF _ x_nonneg]) (simp add: x_sq power_divide)
  have hi: "x < 1 / 2 ^ 52"
    by (rule power2_less_imp_less) (simp_all add: x_sq power_divide)
  have "round_double x =
     of_int (round_half_even (x / 2 powr (of_int (- 53) - 52))) * 2 powr (of_int (- 53) - 52)"
    using lo hi x_nonneg by (intro round_double_binade) (simp_all add: powr_neg_numeral)
  then have rd: "round_double x = of_int (round_half_even (x * 2 ^ 105)) / 2 ^ 105"
    by (simp add: powr_neg_numeral)
  define y where "y = x * 2 ^ 105"
  have y_nonneg: "0 \<le> y"
    unfolding y_def using x_nonneg by simp
  have y_sq: "y\<^sup>2 = 2 ^ 105"
    unfolding y_def by (simp add: power_mult_distrib x_sq)
  have "(of_int 6369051672525773 - 1 / 2 :: real)\<^sup>2 < y\<^sup>2"
    unfolding y_sq by (simp add: power2_eq_square)
  then have below: "of_int 6369051672525773 - 1 / 2 < y"
    using y_nonneg by (rule power2_less_imp_less)
  have "y\<^sup>2 < (of_int 6369051672525773 + 1 / 2 :: real)\<^sup>2"
    unfolding y_sq by (simp add: power2_eq_square)
  then have above: "y < of_int 6369051672525773 + 1 / 2"
    by (rule power2_less_imp_less) simp
  from below above have "round_half_even y = 6369051672525773"
    by (rule round_half_even_between)
  with rd show ?thesis
    by (simp add: y_def x_def)
qed

lemmas fl_eval =
  steer_fl_def avoid_meteors_fl_def fl_div_def py_div_def apply_avoidance_fl_eq apply_centering_fl_eq
  limit_speed_fl_eq calculate_angle_fl_def move_within_bounds_fl_def correctly_rounded_ops_def
  Let_def hypot_axis hypot_5_12 hypot_30_40 constants_defs
  round_double_numeral round_double_neg_numeral round_double_one round_double_neg_one
  round_double_half rd_values rd_len

lemma steer_fl_fast_example:
  "steer_fl correctly_rounded_ops
     \<lparr>ship_x = 400, ship_y = 300, ship_velocity_x = 5, ship_velocity_y = 12, ship_angle = 0\<rparr> []
   = Inr \<lparr>ship_x = 400, ship_y = 300, ship_velocity_x = 5, ship_velocity_y = 12, ship_angle = 0\<rparr>"
  by (simp add: fl_eval)

lemma limit_speed_fl_fast_example:
  "limit_speed_fl correctly_rounded_ops
     \<lparr>ship_x = 400, ship_y = 300, ship_velocity_x = 5, ship_velocity_y = 12, ship_angle = 0\<rparr>
   = Inr \<lparr>ship_x = 400, ship_y = 300,
          ship_velocity_x = 8660768514174031 / 4503599627370496,
          ship_velocity_y = 5196461108504419 / 1125899906842624,
          ship_angle = 0\<rparr>"
  by (simp add: fl_eval)

lemma avoid_meteors_fl_fast_example:
  "avoid_meteors_fl correctly_rounded_ops
     \<lparr>ship_x = 400, ship_y = 300, ship_velocity_x = 5, ship_velocity_y = 12, ship_angle = 0\<rparr> []
   = Inr (move_within_bounds_fl correctly_rounded_ops
            (calculate_angle_fl correctly_rounded_ops
               \<lparr>ship_x = 400, ship_y = 300,
                ship_velocity_x = 8660768514174031 / 4503599627370496,
                ship_velocity_y = 5196461108504419 / 1125899906842624,
                ship_angle = 0\<rparr>))"
  by (simp add: avoid_meteors_fl_def steer_fl_fast_example limit_speed_fl_fast_example)

lemma moved_fast_example:
  "ship_velocity_x (move_within_bounds_fl correctly_rounded_ops
            (calculate_angle_fl correctly_rounded_ops
               \<lparr>ship_x = 400, ship_y = 300,
                ship_velocity_x = 8660768514174031 / 4503599627370496,
                ship_velocity_y = 5196461108504419 / 1125899906842624,
                ship_angle = 0\<rparr>)) = 8660768514174031 / 4503599627370496"
  "ship_velocity_y (move_within_bounds_fl correctly_rounded_ops
            (calculate_angle_fl correctly_rounded_ops
               \<lparr>ship_x = 400, ship_y = 300,
                ship_velocity_x = 8660768514174031 / 4503599627370496,
                ship_velocity_y = 5196461108504419 / 1125899906842624,
                ship_angle = 0\<rparr>)) = 5196461108504419 / 1125899906842624"
  "ship_x (move_within_bounds_fl correctly_rounded_ops
            (calculate_angle_fl correctly_rounded_ops
               \<lparr>ship_x = 400, ship_y = 300,
                ship_velocity_x = 8660768514174031 / 4503599627370496,
                ship_velocity_y = 5196461108504419 / 1125899906842624,
                ship_angle = 0\<rparr>)) = 1767676386193723 / 4398046511104"
  "ship_y (move_within_bounds_fl correctly_rounded_ops
            (calculate_angle_fl correctly_rounded_ops
               \<lparr>ship_x = 400, ship_y = 300,
                ship_velocity_x = 8660768514174031 / 4503599627370496,
                ship_velocity_y = 5196461108504419 / 1125899906842624,
                ship_angle = 0\<rparr>)) = 2679425259072591 / 8796093022208"
  by (simp_all add: fl_eval)

lemma threat_scan_fl_danger_example:
  "threat_scan_fl correctly_rounded_ops
     \<lparr>ship_x = 400, ship_y = 300, ship_velocity_x = 0, ship_velocity_y = 0, ship_angle = 0\<rparr>
     ((0, 0), False)
     [\<lparr>meteor_x = 440, meteor_y = 300, meteor_speed = 1, meteor_velocity_x = 1, meteor_velocity_y = 0\<rparr>]
   = Inr ((- 1, 0), True)"
  by (simp add: fl_eval)

lemma steer_fl_danger_example:
  "steer_fl correctly_rounded_ops
     \<lparr>ship_x = 400, ship_y = 300, ship_velocity_x = 0, ship_velocity_y = 0, ship_angle = 0\<rparr>
     [\<lparr>meteor_x = 440, meteor_y = 300, meteor_speed = 1, meteor_velocity_x = 1, meteor_velocity_y = 0\<rparr>]
   = Inr \<lparr>ship_x = 400, ship_y = 300, ship_velocity_x = - (1 / 2), ship_velocity_y = 0, ship_angle = 0\<rparr>"
  by (simp add: fl_eval)

lemma threat_scan_fl_calm_example:
  "threat_scan_fl correctly_rounded_ops
     \<lparr>ship_x = 500, ship_y = 300, ship_velocity_x = 0, ship_velocity_y = 0, ship_angle = 0\<rparr>
     ((0, 0), False)
     [\<lparr>meteor_x = 700, meteor_y = 300, meteor_speed = 1, meteor_velocity_x = 1, meteor_velocity_y = 0\<rparr>]
   = Inr ((0, 0), False)"
  by (simp add: fl_eval)

lemma steer_fl_calm_example:
  "steer_fl correctly_rounded_ops
     \<lparr>ship_x = 500, ship_y = 300, ship_velocity_x = 0, ship_velocity_y = 0, ship_angle = 0\<rparr>
     [\<lparr>meteor_x = 700, meteor_y = 300, meteor_speed = 1, meteor_velocity_x = 1, meteor_velocity_y = 0\<rparr>]
   = Inr \<lparr>ship_x = 500, ship_y = 300,
          ship_velocity_x = - (3602879701896397 / 36028797018963968),
          ship_velocity_y = 0, ship_angle = 0\<rparr>"
  by (simp add: fl_eval)

lemma threat_scan_fl_opposed_example:
  "threat_scan_fl correctly_rounded_ops
     \<lparr>ship_x = 400, ship_y = 300, ship_velocity_x = 0, ship_velocity_y = 0, ship_angle = 0\<rparr>
     ((0, 0), False)
     [\<lparr>meteor_x = 370, meteor_y = 260, meteor_speed = 1, meteor_velocity_x = 1, meteor_velocity_y = 0\<rparr>,
      \<lparr>meteor_x = 360, meteor_y = 270, meteor_speed = 1, meteor_velocity_x = 1, meteor_velocity_y = 0\<rparr>,
      \<lparr>meteor_x = 430, meteor_y = 340, meteor_speed = 1, meteor_velocity_x = 1, meteor_velocity_y = 0\<rparr>,
      \<lparr>meteor_x = 440, meteor_y = 330, meteor_speed = 1, meteor_velocity_x = 1, meteor_velocity_y = 0\<rparr>]
   = Inr ((- (1 / 9007199254740992), - (1 / 9007199254740992)), True)"
  by (simp add: fl_eval)

lemma steer_fl_opposed_example:
  "steer_fl correctly_rounded_ops
     \<lparr>ship_x = 400, ship_y = 300, ship_velocity_x = 0, ship_velocity_y = 0, ship_angle = 0\<rparr>
     [\<lparr>meteor_x = 370, meteor_y = 260, meteor_speed = 1, meteor_velocity_x = 1, meteor_velocity_y = 0\<rparr>,
      \<lparr>meteor_x = 360, meteor_y = 270, meteor_speed = 1, meteor_velocity_x = 1, meteor_velocity_y = 0\<rparr>,
      \<lparr>meteor_x = 430, meteor_y = 340, meteor_speed = 1, meteor_velocity_x = 1, meteor_velocity_y = 0\<rparr>,
      \<lparr>meteor_x = 440, meteor_y = 330, meteor_speed = 1, meteor_velocity_x = 1, meteor_velocity_y = 0\<rparr>]
   = Inr \<lparr>ship_x = 400, ship_y = 300,
          ship_velocity_x = - (1592262918131443 / 4503599627370496),
          ship_velocity_y = - (1592262918131443 / 4503599627370496),
          ship_angle = 0\<rparr>"
  by (simp add: fl_eval threat_scan_fl_opposed_example)

lemma threat_scan_opposed_example:
  "threat_scan
     \<lparr>ship_x = 400, ship_y = 300, ship_velocity_x = 0, ship_velocity_y = 0, ship_angle = 0\<rparr>
     ((0, 0), False)
     [\<lparr>meteor_x = 370, meteor_y = 260, meteor_speed = 1, meteor_velocity_x = 1, meteor_velocity_y = 0\<rparr>,
      \<lparr>meteor_x = 360, meteor_y = 270, meteor_speed = 1, meteor_velocity_x = 1, meteor_velocity_y = 0\<rparr>,
      \<lparr>meteor_x = 430, meteor_y = 340, meteor_speed = 1, meteor_velocity_x = 1, meteor_velocity_y = 0\<rparr>,
      \<lparr>meteor_x = 440, meteor_y = 330, meteor_speed = 1, meteor_velocity_x = 1, meteor_velocity_y = 0\<rparr>]
   = Inr ((0, 0), True)"
  by (simp add: py_div_def hypot_30_40 constants_defs)

subsection \<open>The speed after the update\<close>

text \<open>
  C5, as amended. In double-precision arithmetic, and when \<open>math.hypot\<close>
  returns the speed before the limit with an error of at most one unit in the
  last place (2 to the -52 of the speed, plus 2 to the -1074 for the smallest
  doubles; this excludes only a speed that overflows): after
  \<open>avoid_meteors\<close> the speed of the ship is at most MAX_SPEED times
  1 + 2 to the -49, whatever the velocity it came in with. When the computed
  speed before the limit exceeds MAX_SPEED, each component of the velocity is
  the rounded quotient by the speed, times MAX_SPEED, rounded; it lies within
  MAX_SPEED times 2 to the -50 of MAX_SPEED times the component of the exact
  unit vector, so the direction is kept up to rounding, and the speed lies
  within MAX_SPEED times 2 to the -49 of MAX_SPEED. Otherwise the velocity is
  left as it is. The claim as written has the speed at most MAX_SPEED and the
  rescaled speed exactly MAX_SPEED: the counterexample comes in with the
  velocity (5, 12) and leaves with a speed above MAX_SPEED.
\<close>

theorem avoid_meteors_fl_speed_cap:
  assumes rnd: "fl_round ops = round_double"
    and pre: "steer_fl ops self ms = Inr p"
    and run: "avoid_meteors_fl ops self ms = Inr s'"
    and acc: "\<bar>fl_hypot ops (ship_velocity_x p) (ship_velocity_y p)
                - hypot (ship_velocity_x p) (ship_velocity_y p)\<bar>
              \<le> 2 powr (- 52) * hypot (ship_velocity_x p) (ship_velocity_y p) + 2 powr (- 1074)"
  shows "hypot (ship_velocity_x s') (ship_velocity_y s') \<le> MAX_SPEED * (1 + 2 powr (- 49))
    \<and> (MAX_SPEED < fl_hypot ops (ship_velocity_x p) (ship_velocity_y p) \<longrightarrow>
         ship_velocity_x s' =
           round_double (round_double (ship_velocity_x p /
             fl_hypot ops (ship_velocity_x p) (ship_velocity_y p)) * MAX_SPEED)
       \<and> ship_velocity_y s' =
           round_double (round_double (ship_velocity_y p /
             fl_hypot ops (ship_velocity_x p) (ship_velocity_y p)) * MAX_SPEED)
       \<and> \<bar>ship_velocity_x s' -
            MAX_SPEED * (ship_velocity_x p / hypot (ship_velocity_x p) (ship_velocity_y p))\<bar>
           \<le> MAX_SPEED * 2 powr (- 50)
       \<and> \<bar>ship_velocity_y s' -
            MAX_SPEED * (ship_velocity_y p / hypot (ship_velocity_x p) (ship_velocity_y p))\<bar>
           \<le> MAX_SPEED * 2 powr (- 50)
       \<and> \<bar>hypot (ship_velocity_x s') (ship_velocity_y s') - MAX_SPEED\<bar>
           \<le> MAX_SPEED * 2 powr (- 49))
    \<and> (fl_hypot ops (ship_velocity_x p) (ship_velocity_y p) \<le> MAX_SPEED \<longrightarrow>
         ship_velocity_x s' = ship_velocity_x p \<and> ship_velocity_y s' = ship_velocity_y p)"
proof -
  define vx where "vx = ship_velocity_x p"
  define vy where "vy = ship_velocity_y p"
  define s where "s = fl_hypot ops vx vy"
  define h where "h = hypot vx vy"
  have e52: "(2::real) powr (- 52) = 1 / 2 ^ 52"
    and e51: "(2::real) powr (- 51) = 1 / 2 ^ 51"
    and e1074: "(2::real) powr (- 1074) = 1 / 2 ^ 1074"
    by (simp_all add: powr_neg_numeral)
  have acc': "\<bar>s - h\<bar> \<le> h / 2 ^ 52 + 1 / 2 ^ 1074"
    using acc by (simp add: s_def h_def vx_def vy_def e52 e1074)
  have M: "1 / 2 \<le> MAX_SPEED" "MAX_SPEED \<le> 5"
    by (simp_all add: MAX_SPEED_def)
  note vel = avoid_meteors_fl_velocity [OF pre run, folded vx_def vy_def, folded s_def, unfolded rnd]
  have over: "ship_velocity_x s' = round_double (round_double (vx / s) * MAX_SPEED)
       \<and> ship_velocity_y s' = round_double (round_double (vy / s) * MAX_SPEED)
       \<and> \<bar>ship_velocity_x s' - MAX_SPEED * (vx / hypot vx vy)\<bar> \<le> MAX_SPEED * 2 powr (- 50)
       \<and> \<bar>ship_velocity_y s' - MAX_SPEED * (vy / hypot vx vy)\<bar> \<le> MAX_SPEED * 2 powr (- 50)
       \<and> \<bar>hypot (ship_velocity_x s') (ship_velocity_y s') - MAX_SPEED\<bar> \<le> MAX_SPEED * 2 powr (- 49)"
    if big: "MAX_SPEED < s"
  proof -
    from big have five: "5 < s"
      by (simp add: MAX_SPEED_def)
    then have s_pos: "0 < s"
      by simp
    have "s - h \<le> h / 2 ^ 52 + 1 / 2 ^ 1074"
      using acc' by linarith
    with five have "5 < h + h / 2 ^ 52 + 1 / 2 ^ 1074"
      by linarith
    then have h_one: "1 \<le> h"
      by (cases "1 \<le> h") (auto simp add: field_simps)
    then have "1 / 2 ^ 1074 \<le> h / 2 ^ 52"
      by (simp add: field_simps)
    with acc' have "\<bar>s - h\<bar> \<le> h / 2 ^ 52 + h / 2 ^ 52"
      by linarith
    then have acc1: "\<bar>s - hypot vx vy\<bar> \<le> 2 powr (- 51) * hypot vx vy"
      by (simp add: e51 h_def)
    have acc2: "\<bar>s - hypot vy vx\<bar> \<le> 2 powr (- 51) * hypot vy vx"
      using acc1 by (simp add: hypot_commute)
    from big vel have x: "ship_velocity_x s' = round_double (round_double (vx / s) * MAX_SPEED)"
      and y: "ship_velocity_y s' = round_double (round_double (vy / s) * MAX_SPEED)"
      by simp_all
    have ex: "\<bar>ship_velocity_x s' - MAX_SPEED * (vx / hypot vx vy)\<bar> \<le> MAX_SPEED * 2 powr (- 50)"
      unfolding x by (rule rescale_component_error [OF s_pos acc1 M])
    have ey: "\<bar>ship_velocity_y s' - MAX_SPEED * (vy / hypot vx vy)\<bar> \<le> MAX_SPEED * 2 powr (- 50)"
      unfolding y using rescale_component_error [OF s_pos acc2 M] by (simp add: hypot_commute)
    have em: "\<bar>hypot (ship_velocity_x s') (ship_velocity_y s') - MAX_SPEED\<bar> \<le> MAX_SPEED * 2 powr (- 49)"
      unfolding x y by (rule rescale_magnitude_error [OF s_pos acc1 M])
    from x y ex ey em show ?thesis by blast
  qed
  have under: "ship_velocity_x s' = ship_velocity_x p \<and> ship_velocity_y s' = ship_velocity_y p"
    if "s \<le> MAX_SPEED"
    using that vel by (simp add: vx_def vy_def)
  have cap: "hypot (ship_velocity_x s') (ship_velocity_y s') \<le> MAX_SPEED * (1 + 2 powr (- 49))"
  proof (cases "MAX_SPEED < s")
    case True
    from over [OF True] have
      "\<bar>hypot (ship_velocity_x s') (ship_velocity_y s') - MAX_SPEED\<bar> \<le> MAX_SPEED * 2 powr (- 49)"
      by blast
    then show ?thesis
      by (simp add: algebra_simps)
  next
    case False
    then have small: "s \<le> 5"
      by (simp add: MAX_SPEED_def)
    from False under have same:
      "hypot (ship_velocity_x s') (ship_velocity_y s') = h"
      by (simp add: vx_def vy_def h_def)
    have "h - h / 2 ^ 52 - 1 / 2 ^ 1074 \<le> s"
      using acc' by linarith
    with small have "h - h / 2 ^ 52 \<le> 5 + 1 / 2 ^ 1074"
      by linarith
    then have "h \<le> 5 * (1 + 1 / 2 ^ 49)"
      by (simp add: field_simps)
    then show ?thesis
      by (simp add: same MAX_SPEED_def powr_neg_numeral)
  qed
  from cap over under show ?thesis
    unfolding s_def vx_def vy_def by blast
qed

theorem avoid_meteors_fl_speed_cap_witness:
  "fl_round correctly_rounded_ops = round_double
   \<and> steer_fl correctly_rounded_ops
       \<lparr>ship_x = 400, ship_y = 300, ship_velocity_x = 5, ship_velocity_y = 12, ship_angle = 0\<rparr> []
     = Inr \<lparr>ship_x = 400, ship_y = 300, ship_velocity_x = 5, ship_velocity_y = 12, ship_angle = 0\<rparr>
   \<and> MAX_SPEED < fl_hypot correctly_rounded_ops 5 12
   \<and> \<bar>fl_hypot correctly_rounded_ops 5 12 - hypot 5 12\<bar>
        \<le> 2 powr (- 52) * hypot 5 12 + 2 powr (- 1074)
   \<and> hypot (8660768514174031 / 4503599627370496) (5196461108504419 / 1125899906842624)
        \<le> MAX_SPEED * (1 + 2 powr (- 49))
   \<and> \<bar>hypot (8660768514174031 / 4503599627370496) (5196461108504419 / 1125899906842624) - MAX_SPEED\<bar>
        \<le> MAX_SPEED * 2 powr (- 49)"
proof -
  have rnd: "fl_round correctly_rounded_ops = round_double"
    by (simp add: correctly_rounded_ops_def)
  have speed: "fl_hypot correctly_rounded_ops 5 12 = 13"
    by (simp add: correctly_rounded_ops_def hypot_5_12 round_double_numeral)
  have acc: "\<bar>fl_hypot correctly_rounded_ops
                 (ship_velocity_x \<lparr>ship_x = 400, ship_y = 300, ship_velocity_x = 5, ship_velocity_y = 12, ship_angle = 0\<rparr>)
                 (ship_velocity_y \<lparr>ship_x = 400, ship_y = 300, ship_velocity_x = 5, ship_velocity_y = 12, ship_angle = 0\<rparr>)
               - hypot
                 (ship_velocity_x \<lparr>ship_x = 400, ship_y = 300, ship_velocity_x = 5, ship_velocity_y = 12, ship_angle = 0\<rparr>)
                 (ship_velocity_y \<lparr>ship_x = 400, ship_y = 300, ship_velocity_x = 5, ship_velocity_y = 12, ship_angle = 0\<rparr>)\<bar>
             \<le> 2 powr (- 52) * hypot
                 (ship_velocity_x \<lparr>ship_x = 400, ship_y = 300, ship_velocity_x = 5, ship_velocity_y = 12, ship_angle = 0\<rparr>)
                 (ship_velocity_y \<lparr>ship_x = 400, ship_y = 300, ship_velocity_x = 5, ship_velocity_y = 12, ship_angle = 0\<rparr>)
               + 2 powr (- 1074)"
    by (simp add: speed hypot_5_12)
  have over: "MAX_SPEED < fl_hypot correctly_rounded_ops 5 12"
    by (simp add: speed MAX_SPEED_def)
  have acc': "\<bar>fl_hypot correctly_rounded_ops 5 12 - hypot 5 12\<bar>
      \<le> 2 powr (- 52) * hypot 5 12 + 2 powr (- 1074)"
    by (simp add: speed hypot_5_12)
  show ?thesis
    using avoid_meteors_fl_speed_cap
      [OF rnd steer_fl_fast_example avoid_meteors_fl_fast_example acc, unfolded moved_fast_example]
      rnd steer_fl_fast_example over acc'
    by simp
qed

theorem avoid_meteors_fl_speed_cap_counterexample:
  "steer_fl correctly_rounded_ops
     \<lparr>ship_x = 400, ship_y = 300, ship_velocity_x = 5, ship_velocity_y = 12, ship_angle = 0\<rparr> []
   = Inr \<lparr>ship_x = 400, ship_y = 300, ship_velocity_x = 5, ship_velocity_y = 12, ship_angle = 0\<rparr>
   \<and> avoid_meteors_fl correctly_rounded_ops
     \<lparr>ship_x = 400, ship_y = 300, ship_velocity_x = 5, ship_velocity_y = 12, ship_angle = 0\<rparr> []
   = Inr (move_within_bounds_fl correctly_rounded_ops
            (calculate_angle_fl correctly_rounded_ops
               \<lparr>ship_x = 400, ship_y = 300,
                ship_velocity_x = 8660768514174031 / 4503599627370496,
                ship_velocity_y = 5196461108504419 / 1125899906842624,
                ship_angle = 0\<rparr>))
   \<and> ship_velocity_x (move_within_bounds_fl correctly_rounded_ops
            (calculate_angle_fl correctly_rounded_ops
               \<lparr>ship_x = 400, ship_y = 300,
                ship_velocity_x = 8660768514174031 / 4503599627370496,
                ship_velocity_y = 5196461108504419 / 1125899906842624,
                ship_angle = 0\<rparr>)) = 8660768514174031 / 4503599627370496
   \<and> ship_velocity_y (move_within_bounds_fl correctly_rounded_ops
            (calculate_angle_fl correctly_rounded_ops
               \<lparr>ship_x = 400, ship_y = 300,
                ship_velocity_x = 8660768514174031 / 4503599627370496,
                ship_velocity_y = 5196461108504419 / 1125899906842624,
                ship_angle = 0\<rparr>)) = 5196461108504419 / 1125899906842624
   \<and> MAX_SPEED < hypot (8660768514174031 / 4503599627370496) (5196461108504419 / 1125899906842624)"
proof -
  have "5 < hypot (8660768514174031 / 4503599627370496) (5196461108504419 / 1125899906842624)"
    by (rule hypot_gt_5) simp
  then have "MAX_SPEED < hypot (8660768514174031 / 4503599627370496) (5196461108504419 / 1125899906842624)"
    by (simp add: MAX_SPEED_def)
  with steer_fl_fast_example avoid_meteors_fl_fast_example moved_fast_example(1,2)
  show ?thesis
    by - (intro conjI; assumption)
qed

subsection \<open>Avoidance or centering\<close>

text \<open>
  C4, as amended. In one update, with every difference, distance, quotient and
  sum as the program computes it: the summed vector is the sum, accumulated in
  list order and rounded at each step, of the rounded unit vectors from the
  meteors whose computed distance is positive and below DETECTION_RADIUS, and
  \<open>in_danger\<close> holds exactly when there is such a meteor. When it does not
  hold, the summed vector is zero, no avoidance is applied, and the velocity
  gains CENTERING_STRENGTH times the computed unit vector towards the centre of
  the field (the difference itself when its computed length is zero). When it
  holds, no centering is applied: the velocity gains
  AVOIDANCE_STRENGTH times the summed vector divided by its computed length when
  that length is positive, and nothing otherwise. The magnitude of that impulse
  is within AVOIDANCE_STRENGTH times 2 to the -49 of AVOIDANCE_STRENGTH when
  \<open>math.hypot\<close> is accurate to a relative 2 to the -52. The position is not
  touched by this part of the update. The claim as written adds the impulse
  only if the per-threat unit vectors sum to a non-zero vector, and gives it the
  magnitude AVOIDANCE_STRENGTH: in the counterexample the exact unit vectors of
  four meteors sum to zero, the rounded sum is not zero, and an impulse is added
  whose magnitude is not AVOIDANCE_STRENGTH.
\<close>

theorem steer_fl_avoidance_or_centering:
  fixes ops :: float_ops and self :: Spaceship and ms :: "Meteor list"
    and rnd :: "real \<Rightarrow> real" and dx dy d :: "Meteor \<Rightarrow> real" and threat :: "Meteor \<Rightarrow> bool"
    and cx cy n :: real
  defines "rnd \<equiv> fl_round ops"
    and "dx \<equiv> \<lambda>m. fl_round ops (ship_x self - meteor_x m)"
    and "dy \<equiv> \<lambda>m. fl_round ops (ship_y self - meteor_y m)"
    and "d \<equiv> \<lambda>m. fl_hypot ops (dx m) (dy m)"
    and "threat \<equiv> \<lambda>m. d m < DETECTION_RADIUS \<and> 0 < d m"
    and "cx \<equiv> rnd (rnd (WIDTH / 2) - ship_x self)"
    and "cy \<equiv> rnd (rnd (HEIGHT / 2) - ship_y self)"
    and "n \<equiv> fl_hypot ops cx cy"
  assumes zero: "fl_hypot ops 0 0 = 0"
    and scan: "threat_scan_fl ops self ((0, 0), False) ms = Inr (av, in_danger)"
    and pre: "steer_fl ops self ms = Inr p"
  shows "av = foldl (\<lambda>a m. (rnd (fst a + rnd (dx m / d m)), rnd (snd a + rnd (dy m / d m))))
                (0, 0) (filter threat ms)
    \<and> in_danger = (\<exists>m\<in>set ms. threat m)
    \<and> (\<not> in_danger \<longrightarrow>
          av = (0, 0)
          \<and> ship_velocity_x p =
              rnd (ship_velocity_x self +
                rnd ((if n \<noteq> 0 then rnd (cx / n) else cx) * rnd CENTERING_STRENGTH))
          \<and> ship_velocity_y p =
              rnd (ship_velocity_y self +
                rnd ((if n \<noteq> 0 then rnd (cy / n) else cy) * rnd CENTERING_STRENGTH)))
    \<and> (in_danger \<longrightarrow>
          (if 0 < fl_hypot ops (fst av) (snd av)
           then ship_velocity_x p =
                  rnd (ship_velocity_x self +
                    rnd (rnd (fst av / fl_hypot ops (fst av) (snd av)) * rnd AVOIDANCE_STRENGTH))
              \<and> ship_velocity_y p =
                  rnd (ship_velocity_y self +
                    rnd (rnd (snd av / fl_hypot ops (fst av) (snd av)) * rnd AVOIDANCE_STRENGTH))
           else ship_velocity_x p = ship_velocity_x self \<and> ship_velocity_y p = ship_velocity_y self))
    \<and> (rnd = round_double \<and> 0 < fl_hypot ops (fst av) (snd av) \<and>
         \<bar>fl_hypot ops (fst av) (snd av) - hypot (fst av) (snd av)\<bar>
           \<le> 2 powr (- 52) * hypot (fst av) (snd av) \<longrightarrow>
         \<bar>hypot (rnd (rnd (fst av / fl_hypot ops (fst av) (snd av)) * rnd AVOIDANCE_STRENGTH))
                 (rnd (rnd (snd av / fl_hypot ops (fst av) (snd av)) * rnd AVOIDANCE_STRENGTH))
            - AVOIDANCE_STRENGTH\<bar>
           \<le> AVOIDANCE_STRENGTH * 2 powr (- 49))
    \<and> ship_x p = ship_x self \<and> ship_y p = ship_y self"
proof -
  note scan_eq = threat_scan_fl_fold [of ops self "(0, 0)" False ms]
  have sum: "av = foldl (\<lambda>a m. (rnd (fst a + rnd (dx m / d m)), rnd (snd a + rnd (dy m / d m))))
                (0, 0) (filter threat ms)"
    using scan unfolding scan_eq rnd_def dx_def dy_def d_def threat_def by simp
  have danger: "in_danger = (\<exists>m\<in>set ms. threat m)"
    using scan unfolding scan_eq rnd_def dx_def dy_def d_def threat_def by simp
  have p: "bind_result (apply_avoidance_fl ops self av) (\<lambda>s1. apply_centering_fl ops s1 in_danger) = Inr p"
    using pre scan by (simp add: steer_fl_def)
  have pos: "ship_x p = ship_x self \<and> ship_y p = ship_y self"
    using p by (auto simp add: apply_avoidance_fl_eq apply_centering_fl_eq split: if_splits)
  have calm: "av = (0, 0)
          \<and> ship_velocity_x p =
              rnd (ship_velocity_x self +
                rnd ((if n \<noteq> 0 then rnd (cx / n) else cx) * rnd CENTERING_STRENGTH))
          \<and> ship_velocity_y p =
              rnd (ship_velocity_y self +
                rnd ((if n \<noteq> 0 then rnd (cy / n) else cy) * rnd CENTERING_STRENGTH))"
    if calm: "\<not> in_danger"
  proof -
    from calm danger have "filter threat ms = []"
      by (simp add: filter_empty_conv)
    with sum have av: "av = (0, 0)"
      by simp
    have skip: "apply_avoidance_fl ops self av = Inr self"
      by (simp add: apply_avoidance_fl_eq av zero)
    from p calm show ?thesis
      unfolding skip
      by (auto simp add: av apply_centering_fl_eq rnd_def cx_def cy_def n_def)
  qed
  have threat: "(if 0 < fl_hypot ops (fst av) (snd av)
           then ship_velocity_x p =
                  rnd (ship_velocity_x self +
                    rnd (rnd (fst av / fl_hypot ops (fst av) (snd av)) * rnd AVOIDANCE_STRENGTH))
              \<and> ship_velocity_y p =
                  rnd (ship_velocity_y self +
                    rnd (rnd (snd av / fl_hypot ops (fst av) (snd av)) * rnd AVOIDANCE_STRENGTH))
           else ship_velocity_x p = ship_velocity_x self \<and> ship_velocity_y p = ship_velocity_y self)"
    if "in_danger"
    using p that by (auto simp add: apply_avoidance_fl_eq apply_centering_fl_eq rnd_def)
  have magnitude:
    "\<bar>hypot (rnd (rnd (fst av / fl_hypot ops (fst av) (snd av)) * rnd AVOIDANCE_STRENGTH))
            (rnd (rnd (snd av / fl_hypot ops (fst av) (snd av)) * rnd AVOIDANCE_STRENGTH))
       - AVOIDANCE_STRENGTH\<bar>
      \<le> AVOIDANCE_STRENGTH * 2 powr (- 49)"
    if ieee: "rnd = round_double" and len: "0 < fl_hypot ops (fst av) (snd av)"
      and acc: "\<bar>fl_hypot ops (fst av) (snd av) - hypot (fst av) (snd av)\<bar>
           \<le> 2 powr (- 52) * hypot (fst av) (snd av)"
  proof -
    have A: "round_double AVOIDANCE_STRENGTH = AVOIDANCE_STRENGTH"
      using round_double_half by (simp add: AVOIDANCE_STRENGTH_def)
    have M: "1 / 2 \<le> AVOIDANCE_STRENGTH" "AVOIDANCE_STRENGTH \<le> 5"
      by (simp_all add: AVOIDANCE_STRENGTH_def)
    have "2 powr (- 52) * hypot (fst av) (snd av) \<le> 2 powr (- 51) * hypot (fst av) (snd av)"
      using hypot_nonneg [of "fst av" "snd av"] by (intro mult_right_mono) simp_all
    with acc have acc1: "\<bar>fl_hypot ops (fst av) (snd av) - hypot (fst av) (snd av)\<bar>
           \<le> 2 powr (- 51) * hypot (fst av) (snd av)"
      by (rule order_trans)
    show ?thesis
      unfolding ieee A by (rule rescale_magnitude_error [OF len acc1 M])
  qed
  from sum danger calm threat magnitude pos show ?thesis
    by blast
qed

theorem steer_fl_avoidance_or_centering_witness:
  "fl_hypot correctly_rounded_ops 0 0 = 0
   \<and> threat_scan_fl correctly_rounded_ops
       \<lparr>ship_x = 400, ship_y = 300, ship_velocity_x = 0, ship_velocity_y = 0, ship_angle = 0\<rparr>
       ((0, 0), False)
       [\<lparr>meteor_x = 440, meteor_y = 300, meteor_speed = 1, meteor_velocity_x = 1, meteor_velocity_y = 0\<rparr>]
     = Inr ((- 1, 0), True)
   \<and> steer_fl correctly_rounded_ops
       \<lparr>ship_x = 400, ship_y = 300, ship_velocity_x = 0, ship_velocity_y = 0, ship_angle = 0\<rparr>
       [\<lparr>meteor_x = 440, meteor_y = 300, meteor_speed = 1, meteor_velocity_x = 1, meteor_velocity_y = 0\<rparr>]
     = Inr \<lparr>ship_x = 400, ship_y = 300, ship_velocity_x = - (1 / 2), ship_velocity_y = 0, ship_angle = 0\<rparr>
   \<and> threat_scan_fl correctly_rounded_ops
       \<lparr>ship_x = 500, ship_y = 300, ship_velocity_x = 0, ship_velocity_y = 0, ship_angle = 0\<rparr>
       ((0, 0), False)
       [\<lparr>meteor_x = 700, meteor_y = 300, meteor_speed = 1, meteor_velocity_x = 1, meteor_velocity_y = 0\<rparr>]
     = Inr ((0, 0), False)
   \<and> steer_fl correctly_rounded_ops
       \<lparr>ship_x = 500, ship_y = 300, ship_velocity_x = 0, ship_velocity_y = 0, ship_angle = 0\<rparr>
       [\<lparr>meteor_x = 700, meteor_y = 300, meteor_speed = 1, meteor_velocity_x = 1, meteor_velocity_y = 0\<rparr>]
     = Inr \<lparr>ship_x = 500, ship_y = 300,
            ship_velocity_x = - (3602879701896397 / 36028797018963968),
            ship_velocity_y = 0, ship_angle = 0\<rparr>
   \<and> \<bar>hypot (- (1 / 2)) 0 - AVOIDANCE_STRENGTH\<bar> \<le> AVOIDANCE_STRENGTH * 2 powr (- 49)"
proof -
  have zero: "fl_hypot correctly_rounded_ops 0 0 = 0"
    by (simp add: correctly_rounded_ops_def hypot_axis)
  have mag: "\<bar>hypot (- (1 / 2)) 0 - AVOIDANCE_STRENGTH\<bar> \<le> AVOIDANCE_STRENGTH * 2 powr (- 49)"
    by (simp add: hypot_axis AVOIDANCE_STRENGTH_def)
  show ?thesis
    using steer_fl_avoidance_or_centering
        [OF zero threat_scan_fl_danger_example steer_fl_danger_example]
      steer_fl_avoidance_or_centering
        [OF zero threat_scan_fl_calm_example steer_fl_calm_example]
      zero threat_scan_fl_danger_example steer_fl_danger_example
      threat_scan_fl_calm_example steer_fl_calm_example mag
    by - (intro conjI; assumption)
qed

theorem steer_fl_avoidance_or_centering_counterexample:
  "threat_scan
     \<lparr>ship_x = 400, ship_y = 300, ship_velocity_x = 0, ship_velocity_y = 0, ship_angle = 0\<rparr>
     ((0, 0), False)
     [\<lparr>meteor_x = 370, meteor_y = 260, meteor_speed = 1, meteor_velocity_x = 1, meteor_velocity_y = 0\<rparr>,
      \<lparr>meteor_x = 360, meteor_y = 270, meteor_speed = 1, meteor_velocity_x = 1, meteor_velocity_y = 0\<rparr>,
      \<lparr>meteor_x = 430, meteor_y = 340, meteor_speed = 1, meteor_velocity_x = 1, meteor_velocity_y = 0\<rparr>,
      \<lparr>meteor_x = 440, meteor_y = 330, meteor_speed = 1, meteor_velocity_x = 1, meteor_velocity_y = 0\<rparr>]
   = Inr ((0, 0), True)
   \<and> steer_fl correctly_rounded_ops
     \<lparr>ship_x = 400, ship_y = 300, ship_velocity_x = 0, ship_velocity_y = 0, ship_angle = 0\<rparr>
     [\<lparr>meteor_x = 370, meteor_y = 260, meteor_speed = 1, meteor_velocity_x = 1, meteor_velocity_y = 0\<rparr>,
      \<lparr>meteor_x = 360, meteor_y = 270, meteor_speed = 1, meteor_velocity_x = 1, meteor_velocity_y = 0\<rparr>,
      \<lparr>meteor_x = 430, meteor_y = 340, meteor_speed = 1, meteor_velocity_x = 1, meteor_velocity_y = 0\<rparr>,
      \<lparr>meteor_x = 440, meteor_y = 330, meteor_speed = 1, meteor_velocity_x = 1, meteor_velocity_y = 0\<rparr>]
   = Inr \<lparr>ship_x = 400, ship_y = 300,
          ship_velocity_x = - (1592262918131443 / 4503599627370496),
          ship_velocity_y = - (1592262918131443 / 4503599627370496),
          ship_angle = 0\<rparr>
   \<and> hypot (- (1592262918131443 / 4503599627370496) - 0) (- (1592262918131443 / 4503599627370496) - 0)
       \<noteq> AVOIDANCE_STRENGTH"
proof -
  have "hypot (- (1592262918131443 / 4503599627370496)) (- (1592262918131443 / 4503599627370496)) \<noteq> 1 / 2"
  proof
    assume "hypot (- (1592262918131443 / 4503599627370496)) (- (1592262918131443 / 4503599627370496)) = 1 / 2"
    then have "(hypot (- (1592262918131443 / 4503599627370496)) (- (1592262918131443 / 4503599627370496)))\<^sup>2
        = (1 / 2)\<^sup>2"
      by simp
    then show False
      unfolding hypot_square by (simp add: power2_eq_square)
  qed
  then have "hypot (- (1592262918131443 / 4503599627370496) - 0)
        (- (1592262918131443 / 4503599627370496) - 0) \<noteq> AVOIDANCE_STRENGTH"
    by (simp add: AVOIDANCE_STRENGTH_def)
  with threat_scan_opposed_example steer_fl_opposed_example show ?thesis
    by - (intro conjI; assumption)
qed

subsection \<open>The passes of the game loop\<close>

lemma collision_detection_eq:
  "collision_detection s r ms =
     (r \<and> (\<forall>m\<in>set ms. SPACESHIP_SIZE + METEOR_SIZE \<le> hypot (ship_x s - meteor_x m) (ship_y s - meteor_y m)))"
  by (induction ms arbitrary: r) (auto simp add: Let_def)

lemma update_meteors_filter:
  "update_meteors ms = filter (\<lambda>m. \<not> off_screen m) (map update ms)"
  by (induction ms) (simp_all add: Let_def)

lemma frame_meteors_on_screen: "m \<in> set (frame_meteors inp g) \<Longrightarrow> \<not> off_screen m"
  by (simp add: frame_meteors_def update_meteors_filter)

lemma frame_cases:
  assumes "frame inp g = Inr g'"
  obtains ship where
    "avoid_meteors (spaceship g) (frame_meteors inp g) = Inr ship"
    "g' = \<lparr>spaceship = ship, meteors = frame_meteors inp g,
           running = (if quit_event inp then False
                      else collision_detection ship (running g) (frame_meteors inp g)),
           score = score g + 1,
           tracker = track_frame (tracker g) (time_time inp) ship (frame_meteors inp g)\<rparr>"
proof -
  obtain ship where ship: "avoid_meteors (spaceship g) (frame_meteors inp g) = Inr ship"
    using avoid_meteors_total by blast
  with assms have "g' = \<lparr>spaceship = ship, meteors = frame_meteors inp g,
           running = (if quit_event inp then False
                      else collision_detection ship (running g) (frame_meteors inp g)),
           score = score g + 1,
           tracker = track_frame (tracker g) (time_time inp) ship (frame_meteors inp g)\<rparr>"
    by (simp add: frame_def Let_def)
  with ship that show thesis by blast
qed

lemma main_loop_stopped: "\<not> running g \<Longrightarrow> main_loop inps g = Inr g"
  by (cases inps) simp_all

lemma main_loop_on_screen:
  "main_loop inps g = Inr g' \<Longrightarrow> \<forall>m\<in>set (meteors g). \<not> off_screen m \<Longrightarrow>
     \<forall>m\<in>set (meteors g'). \<not> off_screen m"
proof (induction inps arbitrary: g)
  case Nil
  then show ?case by simp
next
  case (Cons inp rest)
  show ?case
  proof (cases "running g")
    case False
    with Cons.prems show ?thesis by simp
  next
    case True
    with Cons.prems(1) obtain g1 where g1: "frame inp g = Inr g1" "main_loop rest g1 = Inr g'"
      by (cases "frame inp g") simp_all
    from g1(1) have "meteors g1 = frame_meteors inp g"
      by (rule frame_cases) simp
    then have "\<forall>m\<in>set (meteors g1). \<not> off_screen m"
      by (simp add: frame_meteors_on_screen)
    with g1(2) show ?thesis by (rule Cons.IH)
  qed
qed

lemma frame_tracker_critical:
  assumes "frame inp g = Inr g'"
    and "critical_threshold (tracker g) = c"
    and "\<forall>e\<in>set (near_misses (tracker g)). SPACESHIP_SIZE + METEOR_SIZE < distance e"
  shows "critical_threshold (tracker g') = c \<and>
         (\<forall>e\<in>set (near_misses (tracker g')). SPACESHIP_SIZE + METEOR_SIZE < distance e)"
proof -
  from assms(1) obtain ship where
    "tracker g' = track_frame (tracker g) (time_time inp) ship (frame_meteors inp g)"
    by (rule frame_cases) simp
  with assms(2,3) show ?thesis
    by (auto simp add: track_frame_fields track_frame_near_misses)
qed

lemma main_loop_tracker_critical:
  "main_loop inps g = Inr g' \<Longrightarrow> critical_threshold (tracker g) = c \<Longrightarrow>
     \<forall>e\<in>set (near_misses (tracker g)). SPACESHIP_SIZE + METEOR_SIZE < distance e \<Longrightarrow>
     critical_threshold (tracker g') = c \<and>
     (\<forall>e\<in>set (near_misses (tracker g')). SPACESHIP_SIZE + METEOR_SIZE < distance e)"
proof (induction inps arbitrary: g)
  case Nil
  then show ?case by simp
next
  case (Cons inp rest)
  show ?case
  proof (cases "running g")
    case False
    with Cons.prems show ?thesis by simp
  next
    case True
    with Cons.prems(1) obtain g1 where g1: "frame inp g = Inr g1" "main_loop rest g1 = Inr g'"
      by (cases "frame inp g") simp_all
    from frame_tracker_critical [OF g1(1) Cons.prems(2) Cons.prems(3)]
    have "critical_threshold (tracker g1) = c"
      "\<forall>e\<in>set (near_misses (tracker g1)). SPACESHIP_SIZE + METEOR_SIZE < distance e"
      by simp_all
    with g1(2) show ?thesis by (rule Cons.IH)
  qed
qed

subsection \<open>The boundaries of the near-miss band and of the collision\<close>

text \<open>
  C2, as amended. With the thresholds of \<open>GameTracker.__init__\<close> (danger 50,
  critical 35) and one meteor at distance \<open>d\<close> from the ship: at
  \<open>d = danger_threshold - eps\<close> with \<open>0 < eps < 15\<close> exactly one event is
  recorded, with that distance, and its severity is WARNING; at
  \<open>d = critical_threshold - eps\<close> with \<open>0 < eps\<close> no event is recorded,
  since that distance is below SPACESHIP_SIZE + METEOR_SIZE = 35; at
  \<open>d = danger_threshold + eps\<close> with \<open>0 < eps\<close> no event is recorded.
  The claim as written asks for a CRITICAL event at \<open>critical_threshold - eps\<close>;
  the counterexample puts a meteor at distance 35 - 1/100 and no event is
  recorded.
\<close>

theorem default_thresholds_boundary:
  assumes "hypot (ship_x s - meteor_x m) (ship_y s - meteor_y m) = d"
  shows "(0 < eps \<and> eps < 15 \<and> d = danger_threshold (GameTracker_init start) - eps \<longrightarrow>
           near_misses (track_frame (GameTracker_init start) now s [m]) =
             [\<lparr>timestamp = now - start, distance = d,
               ship_position = (ship_x s, ship_y s),
               meteor_position = (meteor_x m, meteor_y m),
               ship_velocity = (ship_velocity_x s, ship_velocity_y s),
               meteor_velocity = (meteor_velocity_x m, meteor_velocity_y m)\<rparr>]
           \<and> (\<forall>e\<in>set (near_misses (track_frame (GameTracker_init start) now s [m])).
                 dict_get (event_dict (track_frame (GameTracker_init start) now s [m]) e) ''severity'' =
                   Some (PStr ''WARNING'')))
    \<and> (0 < eps \<and> d = critical_threshold (GameTracker_init start) - eps \<longrightarrow>
           near_misses (track_frame (GameTracker_init start) now s [m]) = [])
    \<and> (0 < eps \<and> d = danger_threshold (GameTracker_init start) + eps \<longrightarrow>
           near_misses (track_frame (GameTracker_init start) now s [m]) = [])"
  using assms
  by (auto simp add: track_frame_near_misses track_frame_fields event_dict_severity
      GameTracker_init_def constants_defs)

theorem default_thresholds_boundary_witness:
  "map distance (near_misses (track_frame (GameTracker_init 0) 2
      \<lparr>ship_x = 400, ship_y = 300, ship_velocity_x = 0, ship_velocity_y = 0, ship_angle = 0\<rparr>
      [\<lparr>meteor_x = 449, meteor_y = 300, meteor_speed = 1, meteor_velocity_x = 1, meteor_velocity_y = 0\<rparr>])) = [49]
   \<and> near_misses (track_frame (GameTracker_init 0) 2
      \<lparr>ship_x = 400, ship_y = 300, ship_velocity_x = 0, ship_velocity_y = 0, ship_angle = 0\<rparr>
      [\<lparr>meteor_x = 434, meteor_y = 300, meteor_speed = 1, meteor_velocity_x = 1, meteor_velocity_y = 0\<rparr>]) = []
   \<and> near_misses (track_frame (GameTracker_init 0) 2
      \<lparr>ship_x = 400, ship_y = 300, ship_velocity_x = 0, ship_velocity_y = 0, ship_angle = 0\<rparr>
      [\<lparr>meteor_x = 451, meteor_y = 300, meteor_speed = 1, meteor_velocity_x = 1, meteor_velocity_y = 0\<rparr>]) = []"
proof -
  have d1: "hypot (ship_x \<lparr>ship_x = 400, ship_y = 300, ship_velocity_x = 0, ship_velocity_y = 0, ship_angle = 0\<rparr>
                 - meteor_x \<lparr>meteor_x = 449, meteor_y = 300, meteor_speed = 1, meteor_velocity_x = 1, meteor_velocity_y = 0\<rparr>)
              (ship_y \<lparr>ship_x = 400, ship_y = 300, ship_velocity_x = 0, ship_velocity_y = 0, ship_angle = 0\<rparr>
                 - meteor_y \<lparr>meteor_x = 449, meteor_y = 300, meteor_speed = 1, meteor_velocity_x = 1, meteor_velocity_y = 0\<rparr>)
            = 49"
    by (simp add: hypot_axis)
  have d2: "hypot (ship_x \<lparr>ship_x = 400, ship_y = 300, ship_velocity_x = 0, ship_velocity_y = 0, ship_angle = 0\<rparr>
                 - meteor_x \<lparr>meteor_x = 434, meteor_y = 300, meteor_speed = 1, meteor_velocity_x = 1, meteor_velocity_y = 0\<rparr>)
              (ship_y \<lparr>ship_x = 400, ship_y = 300, ship_velocity_x = 0, ship_velocity_y = 0, ship_angle = 0\<rparr>
                 - meteor_y \<lparr>meteor_x = 434, meteor_y = 300, meteor_speed = 1, meteor_velocity_x = 1, meteor_velocity_y = 0\<rparr>)
            = 34"
    by (simp add: hypot_axis)
  have d3: "hypot (ship_x \<lparr>ship_x = 400, ship_y = 300, ship_velocity_x = 0, ship_velocity_y = 0, ship_angle = 0\<rparr>
                 - meteor_x \<lparr>meteor_x = 451, meteor_y = 300, meteor_speed = 1, meteor_velocity_x = 1, meteor_velocity_y = 0\<rparr>)
              (ship_y \<lparr>ship_x = 400, ship_y = 300, ship_velocity_x = 0, ship_velocity_y = 0, ship_angle = 0\<rparr>
                 - meteor_y \<lparr>meteor_x = 451, meteor_y = 300, meteor_speed = 1, meteor_velocity_x = 1, meteor_velocity_y = 0\<rparr>)
            = 51"
    by (simp add: hypot_axis)
  show ?thesis
    using default_thresholds_boundary [OF d1, of 1 0 2]
      default_thresholds_boundary [OF d2, of 1 0 2]
      default_thresholds_boundary [OF d3, of 1 0 2]
    by (simp add: GameTracker_init_def)
qed

theorem default_thresholds_boundary_counterexample:
  "hypot (ship_x \<lparr>ship_x = 400, ship_y = 300, ship_velocity_x = 0, ship_velocity_y = 0, ship_angle = 0\<rparr>
            - meteor_x \<lparr>meteor_x = 43499 / 100, meteor_y = 300, meteor_speed = 1, meteor_velocity_x = 1, meteor_velocity_y = 0\<rparr>)
         (ship_y \<lparr>ship_x = 400, ship_y = 300, ship_velocity_x = 0, ship_velocity_y = 0, ship_angle = 0\<rparr>
            - meteor_y \<lparr>meteor_x = 43499 / 100, meteor_y = 300, meteor_speed = 1, meteor_velocity_x = 1, meteor_velocity_y = 0\<rparr>)
     = critical_threshold (GameTracker_init 0) - 1 / 100
   \<and> near_misses (track_frame (GameTracker_init 0) 1
        \<lparr>ship_x = 400, ship_y = 300, ship_velocity_x = 0, ship_velocity_y = 0, ship_angle = 0\<rparr>
        [\<lparr>meteor_x = 43499 / 100, meteor_y = 300, meteor_speed = 1, meteor_velocity_x = 1, meteor_velocity_y = 0\<rparr>])
     = []"
  by (simp add: track_frame_def track_meteor_def Let_def GameTracker_init_def hypot_axis constants_defs)

text \<open>
  C3, as amended. The collision loop clears \<open>running\<close> exactly when some
  meteor is at a distance strictly below SPACESHIP_SIZE + METEOR_SIZE: after a
  pass, \<open>running\<close> holds when it held before, no quit was requested and
  every live meteor is at a distance of at least that sum from the ship as
  updated; once \<open>running\<close> is cleared the loop ends with the state as it is.
  So a distance of the sum plus a positive epsilon does not end the run, and
  neither does a distance exactly equal to the sum, which the claim as written
  says does: the counterexample has a meteor at distance exactly 35 and
  \<open>running\<close> stays set.
\<close>

theorem collision_strict_boundary:
  "collision_detection s r ms =
     (r \<and> (\<forall>m\<in>set ms. SPACESHIP_SIZE + METEOR_SIZE \<le> hypot (ship_x s - meteor_x m) (ship_y s - meteor_y m)))
   \<and> (frame inp g = Inr g' \<longrightarrow>
        running g' =
          (running g \<and> \<not> quit_event inp \<and>
           (\<forall>m\<in>set (meteors g').
              SPACESHIP_SIZE + METEOR_SIZE \<le>
                hypot (ship_x (spaceship g') - meteor_x m) (ship_y (spaceship g') - meteor_y m)))
        \<and> (\<not> running g' \<longrightarrow> main_loop inps g' = Inr g'))"
proof -
  have "running g' =
          (running g \<and> \<not> quit_event inp \<and>
           (\<forall>m\<in>set (meteors g').
              SPACESHIP_SIZE + METEOR_SIZE \<le>
                hypot (ship_x (spaceship g') - meteor_x m) (ship_y (spaceship g') - meteor_y m)))"
    if "frame inp g = Inr g'"
    using that by (rule frame_cases) (auto simp add: collision_detection_eq)
  then show ?thesis
    by (simp add: collision_detection_eq main_loop_stopped)
qed

lemma frame_collision_example:
  "frame \<lparr>random_random = 1, spawn_side = Left, spawn_along = 0, spawn_angle = 0, spawn_speed = 1,
          time_time = 2, quit_event = False\<rparr>
     \<lparr>spaceship = \<lparr>ship_x = 400, ship_y = 300, ship_velocity_x = 0, ship_velocity_y = 0, ship_angle = 0\<rparr>,
      meteors = [\<lparr>meteor_x = 432, meteor_y = 300, meteor_speed = 1, meteor_velocity_x = 1, meteor_velocity_y = 0\<rparr>,
                 \<lparr>meteor_x = 368, meteor_y = 300, meteor_speed = 1, meteor_velocity_x = - 1, meteor_velocity_y = 0\<rparr>],
      running = True, score = 0, tracker = GameTracker_init 0\<rparr>
   = Inr \<lparr>spaceship = \<lparr>ship_x = 400, ship_y = 300, ship_velocity_x = 0, ship_velocity_y = 0, ship_angle = 0\<rparr>,
      meteors = [\<lparr>meteor_x = 433, meteor_y = 300, meteor_speed = 1, meteor_velocity_x = 1, meteor_velocity_y = 0\<rparr>,
                 \<lparr>meteor_x = 367, meteor_y = 300, meteor_speed = 1, meteor_velocity_x = - 1, meteor_velocity_y = 0\<rparr>],
      running = False, score = 1, tracker = GameTracker_init 0\<rparr>"
  by (simp add: frame_def frame_meteors_def update_def off_screen_def
      avoid_meteors_def steer_def py_div_def apply_avoidance_eq apply_centering_eq
      limit_speed_eq calculate_angle_def move_within_bounds_def
      track_frame_def track_meteor_def GameTracker_init_def
      Let_def hypot_axis constants_defs)

theorem collision_strict_boundary_witness:
  "frame \<lparr>random_random = 1, spawn_side = Left, spawn_along = 0, spawn_angle = 0, spawn_speed = 1,
          time_time = 2, quit_event = False\<rparr>
     \<lparr>spaceship = \<lparr>ship_x = 400, ship_y = 300, ship_velocity_x = 0, ship_velocity_y = 0, ship_angle = 0\<rparr>,
      meteors = [\<lparr>meteor_x = 432, meteor_y = 300, meteor_speed = 1, meteor_velocity_x = 1, meteor_velocity_y = 0\<rparr>,
                 \<lparr>meteor_x = 368, meteor_y = 300, meteor_speed = 1, meteor_velocity_x = - 1, meteor_velocity_y = 0\<rparr>],
      running = True, score = 0, tracker = GameTracker_init 0\<rparr>
   = Inr \<lparr>spaceship = \<lparr>ship_x = 400, ship_y = 300, ship_velocity_x = 0, ship_velocity_y = 0, ship_angle = 0\<rparr>,
      meteors = [\<lparr>meteor_x = 433, meteor_y = 300, meteor_speed = 1, meteor_velocity_x = 1, meteor_velocity_y = 0\<rparr>,
                 \<lparr>meteor_x = 367, meteor_y = 300, meteor_speed = 1, meteor_velocity_x = - 1, meteor_velocity_y = 0\<rparr>],
      running = False, score = 1, tracker = GameTracker_init 0\<rparr>
   \<and> \<not> (SPACESHIP_SIZE + METEOR_SIZE \<le> hypot (400 - 433) (300 - 300))
   \<and> main_loop
        [\<lparr>random_random = 1, spawn_side = Left, spawn_along = 0, spawn_angle = 0, spawn_speed = 1,
          time_time = 2, quit_event = False\<rparr>]
        \<lparr>spaceship = \<lparr>ship_x = 400, ship_y = 300, ship_velocity_x = 0, ship_velocity_y = 0, ship_angle = 0\<rparr>,
         meteors = [\<lparr>meteor_x = 433, meteor_y = 300, meteor_speed = 1, meteor_velocity_x = 1, meteor_velocity_y = 0\<rparr>,
                    \<lparr>meteor_x = 367, meteor_y = 300, meteor_speed = 1, meteor_velocity_x = - 1, meteor_velocity_y = 0\<rparr>],
         running = False, score = 1, tracker = GameTracker_init 0\<rparr>
     = Inr \<lparr>spaceship = \<lparr>ship_x = 400, ship_y = 300, ship_velocity_x = 0, ship_velocity_y = 0, ship_angle = 0\<rparr>,
         meteors = [\<lparr>meteor_x = 433, meteor_y = 300, meteor_speed = 1, meteor_velocity_x = 1, meteor_velocity_y = 0\<rparr>,
                    \<lparr>meteor_x = 367, meteor_y = 300, meteor_speed = 1, meteor_velocity_x = - 1, meteor_velocity_y = 0\<rparr>],
         running = False, score = 1, tracker = GameTracker_init 0\<rparr>"
  using collision_strict_boundary [where
      inp = "\<lparr>random_random = 1, spawn_side = Left, spawn_along = 0, spawn_angle = 0, spawn_speed = 1,
          time_time = 2, quit_event = False\<rparr>"
      and g = "\<lparr>spaceship = \<lparr>ship_x = 400, ship_y = 300, ship_velocity_x = 0, ship_velocity_y = 0, ship_angle = 0\<rparr>,
        meteors = [\<lparr>meteor_x = 432, meteor_y = 300, meteor_speed = 1, meteor_velocity_x = 1, meteor_velocity_y = 0\<rparr>,
                 \<lparr>meteor_x = 368, meteor_y = 300, meteor_speed = 1, meteor_velocity_x = - 1, meteor_velocity_y = 0\<rparr>],
        running = True, score = 0, tracker = GameTracker_init 0\<rparr>"
      and g' = "\<lparr>spaceship = \<lparr>ship_x = 400, ship_y = 300, ship_velocity_x = 0, ship_velocity_y = 0, ship_angle = 0\<rparr>,
        meteors = [\<lparr>meteor_x = 433, meteor_y = 300, meteor_speed = 1, meteor_velocity_x = 1, meteor_velocity_y = 0\<rparr>,
                 \<lparr>meteor_x = 367, meteor_y = 300, meteor_speed = 1, meteor_velocity_x = - 1, meteor_velocity_y = 0\<rparr>],
        running = False, score = 1, tracker = GameTracker_init 0\<rparr>"
      and inps = "[\<lparr>random_random = 1, spawn_side = Left, spawn_along = 0, spawn_angle = 0, spawn_speed = 1,
          time_time = 2, quit_event = False\<rparr>]" and ms = "[]"]
    frame_collision_example
  by (simp add: hypot_axis constants_defs)

theorem collision_strict_boundary_counterexample:
  "hypot (ship_x \<lparr>ship_x = 400, ship_y = 300, ship_velocity_x = 0, ship_velocity_y = 0, ship_angle = 0\<rparr>
            - meteor_x \<lparr>meteor_x = 435, meteor_y = 300, meteor_speed = 1, meteor_velocity_x = 1, meteor_velocity_y = 0\<rparr>)
         (ship_y \<lparr>ship_x = 400, ship_y = 300, ship_velocity_x = 0, ship_velocity_y = 0, ship_angle = 0\<rparr>
            - meteor_y \<lparr>meteor_x = 435, meteor_y = 300, meteor_speed = 1, meteor_velocity_x = 1, meteor_velocity_y = 0\<rparr>)
     = SPACESHIP_SIZE + METEOR_SIZE
   \<and> collision_detection
        \<lparr>ship_x = 400, ship_y = 300, ship_velocity_x = 0, ship_velocity_y = 0, ship_angle = 0\<rparr> True
        [\<lparr>meteor_x = 435, meteor_y = 300, meteor_speed = 1, meteor_velocity_x = 1, meteor_velocity_y = 0\<rparr>]
     = True"
  by (simp add: Let_def hypot_axis constants_defs)

subsection \<open>The analytics report\<close>

text \<open>
  C7, as amended. \<open>save_analytics\<close> leaves the tracker as it was and writes
  the dictionary built from the tracker and from the clock read at the call.
  Two calls with no event recorded in between give the same event count and the
  same ordered list of entries, with the same severities; the total runtime is
  the clock reading minus the start time, so the two dictionaries are equal
  exactly when the two clock readings are. The claim as written asks for the
  same total runtime from any two calls: the counterexample calls at clock 1
  and then at clock 2 and the values written differ.
\<close>

theorem save_analytics_report_function_of_state_and_clock:
  "fst (save_analytics self now filename files) = self
   \<and> snd (save_analytics self now filename files) = files(filename \<mapsto> analytics_dict self now)
   \<and> save_analytics (fst (save_analytics self now1 filename files)) now2 filename
         (snd (save_analytics self now1 filename files)) =
       (self, files(filename \<mapsto> analytics_dict self now2))
   \<and> dict_get (analytics_dict self now) ''total_runtime'' = Some (PFloat (now - start_time self))
   \<and> dict_get (analytics_dict self now1) ''total_near_misses'' =
       dict_get (analytics_dict self now2) ''total_near_misses''
   \<and> dict_get (analytics_dict self now1) ''near_misses'' =
       dict_get (analytics_dict self now2) ''near_misses''
   \<and> dict_get (analytics_dict self now) ''total_near_misses'' = Some (PInt (int (length (near_misses self))))
   \<and> dict_get (analytics_dict self now) ''near_misses'' = Some (PList (map (event_dict self) (near_misses self)))
   \<and> (analytics_dict self now1 = analytics_dict self now2) = (now1 = now2)"
  by (simp add: save_analytics_def analytics_dict_def Let_def)

theorem save_analytics_report_function_of_state_and_clock_witness:
  "save_analytics (fst (save_analytics (GameTracker_init 0) 3 ''game_analytics.json'' Map.empty)) 3
      ''game_analytics.json'' (snd (save_analytics (GameTracker_init 0) 3 ''game_analytics.json'' Map.empty))
     = (GameTracker_init 0, [''game_analytics.json'' \<mapsto> analytics_dict (GameTracker_init 0) 3])
   \<and> dict_get (analytics_dict (GameTracker_init 0) 3) ''total_runtime'' = Some (PFloat 3)"
  using save_analytics_report_function_of_state_and_clock
    [of "GameTracker_init 0" 3 "''game_analytics.json''" Map.empty 3 3]
  by (simp add: save_analytics_def analytics_dict_def GameTracker_init_def Let_def)

theorem save_analytics_report_function_of_state_and_clock_counterexample:
  "snd (save_analytics (GameTracker_init 0) 1 ''game_analytics.json'' Map.empty) ''game_analytics.json''
     \<noteq> snd (save_analytics (fst (save_analytics (GameTracker_init 0) 1 ''game_analytics.json'' Map.empty)) 2
           ''game_analytics.json''
           (snd (save_analytics (GameTracker_init 0) 1 ''game_analytics.json'' Map.empty))) ''game_analytics.json''
   \<and> dict_get (analytics_dict (GameTracker_init 0) 1) ''total_runtime'' = Some (PFloat 1)
   \<and> dict_get (analytics_dict (GameTracker_init 0) 2) ''total_runtime'' = Some (PFloat 2)"
  by (simp add: save_analytics_def analytics_dict_def GameTracker_init_def Let_def)

subsection \<open>The live meteors\<close>

text \<open>
  C8. The update loop of a pass keeps, in order, exactly the meteors that
  after their move are not off the screen, where a meteor is off the screen
  when its x lies outside [-METEOR_SIZE, WIDTH + METEOR_SIZE] or its y outside
  [-METEOR_SIZE, HEIGHT + METEOR_SIZE]. The move adds the velocity to the
  position and nothing clamps it. The autopilot, the near-miss scan and the
  collision loop of the pass all read the list that remains, which is also the
  list the next pass starts from; after one pass or more, no meteor of the list
  is off the screen.
\<close>

theorem off_screen_meteors_removed:
  "update_meteors ms = filter (\<lambda>m. \<not> off_screen m) (map update ms)
   \<and> off_screen m =
       (meteor_x m \<notin> {- METEOR_SIZE .. WIDTH + METEOR_SIZE} \<or>
        meteor_y m \<notin> {- METEOR_SIZE .. HEIGHT + METEOR_SIZE})
   \<and> meteor_x (update m) = meteor_x m + meteor_velocity_x m
   \<and> meteor_y (update m) = meteor_y m + meteor_velocity_y m
   \<and> meteor_velocity_x (update m) = meteor_velocity_x m
   \<and> meteor_velocity_y (update m) = meteor_velocity_y m
   \<and> (frame inp g = Inr g' \<longrightarrow>
        meteors g' = frame_meteors inp g
        \<and> (\<forall>m\<in>set (meteors g'). \<not> off_screen m)
        \<and> avoid_meteors (spaceship g) (meteors g') = Inr (spaceship g')
        \<and> tracker g' = track_frame (tracker g) (time_time inp) (spaceship g') (meteors g')
        \<and> running g' =
            (if quit_event inp then False
             else collision_detection (spaceship g') (running g) (meteors g')))
   \<and> (running g \<and> main_loop (inp # rest) g = Inr g'' \<longrightarrow> (\<forall>m\<in>set (meteors g''). \<not> off_screen m))"
proof -
  have off: "off_screen m =
       (meteor_x m \<notin> {- METEOR_SIZE .. WIDTH + METEOR_SIZE} \<or>
        meteor_y m \<notin> {- METEOR_SIZE .. HEIGHT + METEOR_SIZE})"
    by (auto simp add: off_screen_def)
  have pass: "meteors g' = frame_meteors inp g
        \<and> (\<forall>m\<in>set (meteors g'). \<not> off_screen m)
        \<and> avoid_meteors (spaceship g) (meteors g') = Inr (spaceship g')
        \<and> tracker g' = track_frame (tracker g) (time_time inp) (spaceship g') (meteors g')
        \<and> running g' =
            (if quit_event inp then False
             else collision_detection (spaceship g') (running g) (meteors g'))"
    if "frame inp g = Inr g'"
    using that by (rule frame_cases) (simp add: frame_meteors_on_screen)
  have later: "\<forall>m\<in>set (meteors g''). \<not> off_screen m"
    if run: "running g" and loop: "main_loop (inp # rest) g = Inr g''"
  proof -
    from run loop obtain g1 where g1: "frame inp g = Inr g1" "main_loop rest g1 = Inr g''"
      by (cases "frame inp g") simp_all
    from g1(1) have "meteors g1 = frame_meteors inp g"
      by (rule frame_cases) simp
    then have "\<forall>m\<in>set (meteors g1). \<not> off_screen m"
      by (simp add: frame_meteors_on_screen)
    with g1(2) show ?thesis by (rule main_loop_on_screen)
  qed
  have moved: "meteor_x (update m) = meteor_x m + meteor_velocity_x m
      \<and> meteor_y (update m) = meteor_y m + meteor_velocity_y m
      \<and> meteor_velocity_x (update m) = meteor_velocity_x m
      \<and> meteor_velocity_y (update m) = meteor_velocity_y m"
    by (simp add: update_def)
  from update_meteors_filter [of ms] off moved pass later show ?thesis
    by blast
qed

lemma frame_cull_example:
  "frame \<lparr>random_random = 1, spawn_side = Left, spawn_along = 0, spawn_angle = 0, spawn_speed = 1,
          time_time = 2, quit_event = False\<rparr>
     \<lparr>spaceship = \<lparr>ship_x = 400, ship_y = 300, ship_velocity_x = 0, ship_velocity_y = 0, ship_angle = 0\<rparr>,
      meteors = [\<lparr>meteor_x = 824, meteor_y = 300, meteor_speed = 2, meteor_velocity_x = 2, meteor_velocity_y = 0\<rparr>,
                 \<lparr>meteor_x = 700, meteor_y = 300, meteor_speed = 1, meteor_velocity_x = 1, meteor_velocity_y = 0\<rparr>],
      running = True, score = 0, tracker = GameTracker_init 0\<rparr>
   = Inr \<lparr>spaceship = \<lparr>ship_x = 400, ship_y = 300, ship_velocity_x = 0, ship_velocity_y = 0, ship_angle = 0\<rparr>,
      meteors = [\<lparr>meteor_x = 701, meteor_y = 300, meteor_speed = 1, meteor_velocity_x = 1, meteor_velocity_y = 0\<rparr>],
      running = True, score = 1, tracker = GameTracker_init 0\<rparr>"
  by (simp add: frame_def frame_meteors_def update_def off_screen_def
      avoid_meteors_def steer_def py_div_def apply_avoidance_eq apply_centering_eq
      limit_speed_eq calculate_angle_def move_within_bounds_def
      track_frame_def track_meteor_def GameTracker_init_def
      Let_def hypot_axis constants_defs)

theorem off_screen_meteors_removed_witness:
  "frame \<lparr>random_random = 1, spawn_side = Left, spawn_along = 0, spawn_angle = 0, spawn_speed = 1,
          time_time = 2, quit_event = False\<rparr>
     \<lparr>spaceship = \<lparr>ship_x = 400, ship_y = 300, ship_velocity_x = 0, ship_velocity_y = 0, ship_angle = 0\<rparr>,
      meteors = [\<lparr>meteor_x = 824, meteor_y = 300, meteor_speed = 2, meteor_velocity_x = 2, meteor_velocity_y = 0\<rparr>,
                 \<lparr>meteor_x = 700, meteor_y = 300, meteor_speed = 1, meteor_velocity_x = 1, meteor_velocity_y = 0\<rparr>],
      running = True, score = 0, tracker = GameTracker_init 0\<rparr>
   = Inr \<lparr>spaceship = \<lparr>ship_x = 400, ship_y = 300, ship_velocity_x = 0, ship_velocity_y = 0, ship_angle = 0\<rparr>,
      meteors = [\<lparr>meteor_x = 701, meteor_y = 300, meteor_speed = 1, meteor_velocity_x = 1, meteor_velocity_y = 0\<rparr>],
      running = True, score = 1, tracker = GameTracker_init 0\<rparr>
   \<and> off_screen (update \<lparr>meteor_x = 824, meteor_y = 300, meteor_speed = 2, meteor_velocity_x = 2, meteor_velocity_y = 0\<rparr>)
   \<and> \<not> off_screen \<lparr>meteor_x = 701, meteor_y = 300, meteor_speed = 1, meteor_velocity_x = 1, meteor_velocity_y = 0\<rparr>
   \<and> main_loop
        [\<lparr>random_random = 1, spawn_side = Left, spawn_along = 0, spawn_angle = 0, spawn_speed = 1,
          time_time = 2, quit_event = False\<rparr>]
        \<lparr>spaceship = \<lparr>ship_x = 400, ship_y = 300, ship_velocity_x = 0, ship_velocity_y = 0, ship_angle = 0\<rparr>,
         meteors = [\<lparr>meteor_x = 824, meteor_y = 300, meteor_speed = 2, meteor_velocity_x = 2, meteor_velocity_y = 0\<rparr>,
                    \<lparr>meteor_x = 700, meteor_y = 300, meteor_speed = 1, meteor_velocity_x = 1, meteor_velocity_y = 0\<rparr>],
         running = True, score = 0, tracker = GameTracker_init 0\<rparr>
     = Inr \<lparr>spaceship = \<lparr>ship_x = 400, ship_y = 300, ship_velocity_x = 0, ship_velocity_y = 0, ship_angle = 0\<rparr>,
      meteors = [\<lparr>meteor_x = 701, meteor_y = 300, meteor_speed = 1, meteor_velocity_x = 1, meteor_velocity_y = 0\<rparr>],
      running = True, score = 1, tracker = GameTracker_init 0\<rparr>"
proof -
  have loop: "main_loop
        [\<lparr>random_random = 1, spawn_side = Left, spawn_along = 0, spawn_angle = 0, spawn_speed = 1,
          time_time = 2, quit_event = False\<rparr>]
        \<lparr>spaceship = \<lparr>ship_x = 400, ship_y = 300, ship_velocity_x = 0, ship_velocity_y = 0, ship_angle = 0\<rparr>,
         meteors = [\<lparr>meteor_x = 824, meteor_y = 300, meteor_speed = 2, meteor_velocity_x = 2, meteor_velocity_y = 0\<rparr>,
                    \<lparr>meteor_x = 700, meteor_y = 300, meteor_speed = 1, meteor_velocity_x = 1, meteor_velocity_y = 0\<rparr>],
         running = True, score = 0, tracker = GameTracker_init 0\<rparr>
     = Inr \<lparr>spaceship = \<lparr>ship_x = 400, ship_y = 300, ship_velocity_x = 0, ship_velocity_y = 0, ship_angle = 0\<rparr>,
      meteors = [\<lparr>meteor_x = 701, meteor_y = 300, meteor_speed = 1, meteor_velocity_x = 1, meteor_velocity_y = 0\<rparr>],
      running = True, score = 1, tracker = GameTracker_init 0\<rparr>"
    by (simp add: frame_cull_example)
  have off: "off_screen (update \<lparr>meteor_x = 824, meteor_y = 300, meteor_speed = 2, meteor_velocity_x = 2, meteor_velocity_y = 0\<rparr>)"
    by (simp add: off_screen_def update_def constants_defs)
  have on: "\<not> off_screen \<lparr>meteor_x = 701, meteor_y = 300, meteor_speed = 1, meteor_velocity_x = 1, meteor_velocity_y = 0\<rparr>"
    by (simp add: off_screen_def constants_defs)
  show ?thesis
    using off_screen_meteors_removed [where
      inp = "\<lparr>random_random = 1, spawn_side = Left, spawn_along = 0, spawn_angle = 0, spawn_speed = 1,
          time_time = 2, quit_event = False\<rparr>"
      and g = "\<lparr>spaceship = \<lparr>ship_x = 400, ship_y = 300, ship_velocity_x = 0, ship_velocity_y = 0, ship_angle = 0\<rparr>,
         meteors = [\<lparr>meteor_x = 824, meteor_y = 300, meteor_speed = 2, meteor_velocity_x = 2, meteor_velocity_y = 0\<rparr>,
                    \<lparr>meteor_x = 700, meteor_y = 300, meteor_speed = 1, meteor_velocity_x = 1, meteor_velocity_y = 0\<rparr>],
         running = True, score = 0, tracker = GameTracker_init 0\<rparr>"
      and g' = "\<lparr>spaceship = \<lparr>ship_x = 400, ship_y = 300, ship_velocity_x = 0, ship_velocity_y = 0, ship_angle = 0\<rparr>,
         meteors = [\<lparr>meteor_x = 701, meteor_y = 300, meteor_speed = 1, meteor_velocity_x = 1, meteor_velocity_y = 0\<rparr>],
         running = True, score = 1, tracker = GameTracker_init 0\<rparr>"
      and g'' = "\<lparr>spaceship = \<lparr>ship_x = 400, ship_y = 300, ship_velocity_x = 0, ship_velocity_y = 0, ship_angle = 0\<rparr>,
         meteors = [\<lparr>meteor_x = 701, meteor_y = 300, meteor_speed = 1, meteor_velocity_x = 1, meteor_velocity_y = 0\<rparr>],
         running = True, score = 1, tracker = GameTracker_init 0\<rparr>"
      and rest = "[]" and ms = "[]"
      and m = "\<lparr>meteor_x = 824, meteor_y = 300, meteor_speed = 2, meteor_velocity_x = 2, meteor_velocity_y = 0\<rparr>"]
      frame_cull_example loop off on
    by blast
qed

subsection \<open>The severities that a run can report\<close>

text \<open>
  C10. With the constants of the program (SPACESHIP_SIZE 10, METEOR_SIZE 25,
  critical threshold 35): a game loop that starts with the tracker as
  \<open>GameTracker.__init__\<close> makes it, as \<open>main\<close> does, holds after any
  number of passes only events whose distance is strictly above 35, so every
  entry of the analytics dictionary has the severity WARNING and none has
  CRITICAL.
\<close>

theorem default_constants_only_warning:
  assumes "tracker g0 = GameTracker_init start" and "main_loop inps g0 = Inr g"
  shows "(\<forall>e\<in>set (near_misses (tracker g)).
            35 < distance e \<and>
            dict_get (event_dict (tracker g) e) ''severity'' = Some (PStr ''WARNING''))
    \<and> (\<forall>d\<in>set (map (event_dict (tracker g)) (near_misses (tracker g))).
            dict_get d ''severity'' \<noteq> Some (PStr ''CRITICAL''))
    \<and> dict_get (analytics_dict (tracker g) finish) ''near_misses'' =
        Some (PList (map (event_dict (tracker g)) (near_misses (tracker g))))
    \<and> critical_threshold (tracker g) = 35
    \<and> SPACESHIP_SIZE + METEOR_SIZE = 35
    \<and> tracker (main_init start) = GameTracker_init start"
proof -
  have c0: "critical_threshold (tracker g0) = 35"
    using assms(1) by (simp add: GameTracker_init_def)
  have e0: "\<forall>e\<in>set (near_misses (tracker g0)). SPACESHIP_SIZE + METEOR_SIZE < distance e"
    using assms(1) by (simp add: GameTracker_init_def)
  from main_loop_tracker_critical [OF assms(2) c0 e0]
  have c: "critical_threshold (tracker g) = 35"
    and e: "\<forall>e\<in>set (near_misses (tracker g)). SPACESHIP_SIZE + METEOR_SIZE < distance e"
    by simp_all
  have sum: "SPACESHIP_SIZE + METEOR_SIZE = 35"
    by (simp add: constants_defs)
  have far: "\<forall>e\<in>set (near_misses (tracker g)). 35 < distance e"
    using e sum by simp
  have sev: "\<forall>e\<in>set (near_misses (tracker g)).
      dict_get (event_dict (tracker g) e) ''severity'' = Some (PStr ''WARNING'')"
    using far c by (auto simp add: event_dict_severity)
  have nocrit: "\<forall>d\<in>set (map (event_dict (tracker g)) (near_misses (tracker g))).
            dict_get d ''severity'' \<noteq> Some (PStr ''CRITICAL'')"
    using sev by simp
  have rep: "dict_get (analytics_dict (tracker g) finish) ''near_misses'' =
        Some (PList (map (event_dict (tracker g)) (near_misses (tracker g))))"
    by (simp add: analytics_dict_def)
  have init: "tracker (main_init start) = GameTracker_init start"
    by (simp add: main_init_def)
  from far sev nocrit rep c sum init show ?thesis by blast
qed

lemma main_loop_near_miss_example:
  "main_loop
     [\<lparr>random_random = 1, spawn_side = Left, spawn_along = 0, spawn_angle = 0, spawn_speed = 1,
       time_time = 2, quit_event = True\<rparr>]
     \<lparr>spaceship = \<lparr>ship_x = 400, ship_y = 300, ship_velocity_x = 0, ship_velocity_y = 0, ship_angle = 0\<rparr>,
      meteors = [\<lparr>meteor_x = 439, meteor_y = 300, meteor_speed = 1, meteor_velocity_x = 1, meteor_velocity_y = 0\<rparr>,
                 \<lparr>meteor_x = 361, meteor_y = 300, meteor_speed = 1, meteor_velocity_x = - 1, meteor_velocity_y = 0\<rparr>],
      running = True, score = 0, tracker = GameTracker_init 0\<rparr>
   = Inr \<lparr>spaceship = \<lparr>ship_x = 400, ship_y = 300, ship_velocity_x = 0, ship_velocity_y = 0, ship_angle = 0\<rparr>,
      meteors = [\<lparr>meteor_x = 440, meteor_y = 300, meteor_speed = 1, meteor_velocity_x = 1, meteor_velocity_y = 0\<rparr>,
                 \<lparr>meteor_x = 360, meteor_y = 300, meteor_speed = 1, meteor_velocity_x = - 1, meteor_velocity_y = 0\<rparr>],
      running = False, score = 1,
      tracker = \<lparr>start_time = 0,
        near_misses =
          [\<lparr>timestamp = 2, distance = 40, ship_position = (400, 300), meteor_position = (440, 300),
            ship_velocity = (0, 0), meteor_velocity = (1, 0)\<rparr>,
           \<lparr>timestamp = 2, distance = 40, ship_position = (400, 300), meteor_position = (360, 300),
            ship_velocity = (0, 0), meteor_velocity = (- 1, 0)\<rparr>],
        danger_threshold = 50, critical_threshold = 35\<rparr>\<rparr>"
  by (simp add: frame_def frame_meteors_def update_def off_screen_def
      avoid_meteors_def steer_def py_div_def apply_avoidance_eq apply_centering_eq
      limit_speed_eq calculate_angle_def move_within_bounds_def
      track_frame_def track_meteor_def GameTracker_init_def
      Let_def hypot_axis constants_defs)

theorem default_constants_only_warning_witness:
  "main_loop
     [\<lparr>random_random = 1, spawn_side = Left, spawn_along = 0, spawn_angle = 0, spawn_speed = 1,
       time_time = 2, quit_event = True\<rparr>]
     \<lparr>spaceship = \<lparr>ship_x = 400, ship_y = 300, ship_velocity_x = 0, ship_velocity_y = 0, ship_angle = 0\<rparr>,
      meteors = [\<lparr>meteor_x = 439, meteor_y = 300, meteor_speed = 1, meteor_velocity_x = 1, meteor_velocity_y = 0\<rparr>,
                 \<lparr>meteor_x = 361, meteor_y = 300, meteor_speed = 1, meteor_velocity_x = - 1, meteor_velocity_y = 0\<rparr>],
      running = True, score = 0, tracker = GameTracker_init 0\<rparr>
   = Inr \<lparr>spaceship = \<lparr>ship_x = 400, ship_y = 300, ship_velocity_x = 0, ship_velocity_y = 0, ship_angle = 0\<rparr>,
      meteors = [\<lparr>meteor_x = 440, meteor_y = 300, meteor_speed = 1, meteor_velocity_x = 1, meteor_velocity_y = 0\<rparr>,
                 \<lparr>meteor_x = 360, meteor_y = 300, meteor_speed = 1, meteor_velocity_x = - 1, meteor_velocity_y = 0\<rparr>],
      running = False, score = 1,
      tracker = \<lparr>start_time = 0,
        near_misses =
          [\<lparr>timestamp = 2, distance = 40, ship_position = (400, 300), meteor_position = (440, 300),
            ship_velocity = (0, 0), meteor_velocity = (1, 0)\<rparr>,
           \<lparr>timestamp = 2, distance = 40, ship_position = (400, 300), meteor_position = (360, 300),
            ship_velocity = (0, 0), meteor_velocity = (- 1, 0)\<rparr>],
        danger_threshold = 50, critical_threshold = 35\<rparr>\<rparr>
   \<and> dict_get
        (event_dict
           \<lparr>start_time = 0,
            near_misses =
              [\<lparr>timestamp = 2, distance = 40, ship_position = (400, 300), meteor_position = (440, 300),
                ship_velocity = (0, 0), meteor_velocity = (1, 0)\<rparr>,
               \<lparr>timestamp = 2, distance = 40, ship_position = (400, 300), meteor_position = (360, 300),
                ship_velocity = (0, 0), meteor_velocity = (- 1, 0)\<rparr>],
            danger_threshold = 50, critical_threshold = 35\<rparr>
           \<lparr>timestamp = 2, distance = 40, ship_position = (400, 300), meteor_position = (440, 300),
            ship_velocity = (0, 0), meteor_velocity = (1, 0)\<rparr>) ''severity''
      = Some (PStr ''WARNING'')"
proof -
  have fresh: "tracker
     \<lparr>spaceship = \<lparr>ship_x = 400, ship_y = 300, ship_velocity_x = 0, ship_velocity_y = 0, ship_angle = 0\<rparr>,
      meteors = [\<lparr>meteor_x = 439, meteor_y = 300, meteor_speed = 1, meteor_velocity_x = 1, meteor_velocity_y = 0\<rparr>,
                 \<lparr>meteor_x = 361, meteor_y = 300, meteor_speed = 1, meteor_velocity_x = - 1, meteor_velocity_y = 0\<rparr>],
      running = True, score = 0, tracker = GameTracker_init 0\<rparr> = GameTracker_init 0"
    by simp
  show ?thesis
    using default_constants_only_warning [OF fresh main_loop_near_miss_example, of 3]
      main_loop_near_miss_example
    by simp
qed

end
